theory Spec2Isabelle
  imports Main
begin

section \<open>Errors\<close>

text \<open>
  Every exception the Python source can raise is a value.  \<open>ValueError msg\<close> is a
  \<^verbatim>\<open>ValueError\<close> raised by the source itself with the message \<open>msg\<close>;
  \<open>DatetimeValueError\<close> is a \<^verbatim>\<open>ValueError\<close> raised inside the \<^verbatim>\<open>datetime\<close>
  library (\<^verbatim>\<open>strptime\<close> or the \<^verbatim>\<open>date\<close> constructor), whose message text differs
  between library versions and is not modelled; \<open>HTTPException code detail\<close> is the
  exception of that name raised by the handlers; \<open>JSONResponse code detail\<close> is the reply
  built by \<^verbatim>\<open>validation_exception_handler\<close> when request validation fails;
  \<open>OverflowError\<close> is raised by the database binding for a query parameter outside the
  signed 64-bit range.

  Text is a sequence of code points below 256.
\<close>

datatype error =
    ValueError string
  | DatetimeValueError
  | HTTPException nat string
  | JSONResponse nat string
  | OverflowError

section \<open>Calendar dates\<close>

text \<open>
  \<^verbatim>\<open>datetime.date\<close>: three integer fields, built only through the checking
  constructor \<open>mk_date\<close>.  The arithmetic is the one of the library
  (\<^verbatim>\<open>_is_leap\<close>, \<^verbatim>\<open>_days_in_month\<close>, \<^verbatim>\<open>_days_before_year\<close>,
  \<^verbatim>\<open>_days_before_month\<close>, \<^verbatim>\<open>_ymd2ord\<close>); Python's \<^verbatim>\<open>//\<close> and \<^verbatim>\<open>%\<close> are
  floor division and its remainder, as \<open>div\<close> and \<open>mod\<close> on \<open>int\<close> are.
\<close>

record date =
  year :: int
  month :: int
  day :: int

definition MINYEAR :: int where "MINYEAR = 1"
definition MAXYEAR :: int where "MAXYEAR = 9999"

definition is_leap :: "int \<Rightarrow> bool" where
  "is_leap y = (y mod 4 = 0 \<and> (y mod 100 \<noteq> 0 \<or> y mod 400 = 0))"

definition DAYS_IN_MONTH :: "int \<Rightarrow> int" where
  "DAYS_IN_MONTH m =
     (if m = 1 then 31 else if m = 2 then 28 else if m = 3 then 31 else if m = 4 then 30
      else if m = 5 then 31 else if m = 6 then 30 else if m = 7 then 31 else if m = 8 then 31
      else if m = 9 then 30 else if m = 10 then 31 else if m = 11 then 30 else if m = 12 then 31
      else -1)"

definition DAYS_BEFORE_MONTH :: "int \<Rightarrow> int" where
  "DAYS_BEFORE_MONTH m =
     (if m = 1 then 0 else if m = 2 then 31 else if m = 3 then 59 else if m = 4 then 90
      else if m = 5 then 120 else if m = 6 then 151 else if m = 7 then 181 else if m = 8 then 212
      else if m = 9 then 243 else if m = 10 then 273 else if m = 11 then 304
      else if m = 12 then 334 else -1)"

definition days_in_month :: "int \<Rightarrow> int \<Rightarrow> int" where
  "days_in_month y m = (if m = 2 \<and> is_leap y then 29 else DAYS_IN_MONTH m)"

definition days_before_year :: "int \<Rightarrow> int" where
  "days_before_year y =
     (let z = y - 1 in z * 365 + z div 4 - z div 100 + z div 400)"

definition days_before_month :: "int \<Rightarrow> int \<Rightarrow> int" where
  "days_before_month y m = DAYS_BEFORE_MONTH m + (if m > 2 \<and> is_leap y then 1 else 0)"

definition ymd2ord :: "int \<Rightarrow> int \<Rightarrow> int \<Rightarrow> int" where
  "ymd2ord y m d = days_before_year y + days_before_month y m + d"

text \<open>\<^verbatim>\<open>_check_date_fields\<close>: what the constructor \<^verbatim>\<open>date(y, m, d)\<close> accepts.\<close>

definition check_date_fields :: "int \<Rightarrow> int \<Rightarrow> int \<Rightarrow> bool" where
  "check_date_fields y m d =
     (MINYEAR \<le> y \<and> y \<le> MAXYEAR \<and> 1 \<le> m \<and> m \<le> 12 \<and> 1 \<le> d \<and> d \<le> days_in_month y m)"

definition mk_date :: "int \<Rightarrow> int \<Rightarrow> int \<Rightarrow> error + date" where
  "mk_date y m d =
     (if check_date_fields y m d then Inr \<lparr>year = y, month = m, day = d\<rparr>
      else Inl DatetimeValueError)"

definition valid_date :: "date \<Rightarrow> bool" where
  "valid_date t = check_date_fields (year t) (month t) (day t)"

definition toordinal :: "date \<Rightarrow> int" where
  "toordinal t = ymd2ord (year t) (month t) (day t)"

text \<open>\<^verbatim>\<open>a < b\<close> on dates compares (year, month, day) lexicographically.\<close>

definition date_less :: "date \<Rightarrow> date \<Rightarrow> bool" where
  "date_less a b =
     (year a < year b \<or> (year a = year b \<and> (month a < month b \<or>
        (month a = month b \<and> day a < day b))))"

text \<open>\<^verbatim>\<open>(a - b).days\<close>: the difference of the ordinals.\<close>

definition days_between :: "date \<Rightarrow> date \<Rightarrow> int" where
  "days_between a b = toordinal a - toordinal b"

section \<open>Parsing with the format \<^verbatim>\<open>%Y-%m-%d\<close>\<close>

text \<open>
  \<^verbatim>\<open>datetime.strptime(v, '%Y-%m-%d').date()\<close>.  The library (\<^verbatim>\<open>Lib/_strptime.py\<close>)
  turns the format into the regular expression
  \<^verbatim>\<open>(?P<Y>\d\d\d\d)-(?P<m>1[0-2]|0[1-9]|[1-9])-(?P<d>3[0-1]|[1-2]\d|0[1-9]|[1-9]| [1-9])\<close>,
  matches it at the start of the text, raises \<^verbatim>\<open>ValueError\<close> when it does not match or
  when text remains after the match, and then builds the date with the checking
  constructor.  The alternatives of a group are tried in order; where an earlier one
  matches, no later one can make the rest of the pattern match, so the ordered choice
  below is the regular expression.  Among the code points below 256 the pattern
  \<^verbatim>\<open>\d\<close> matches the characters \<open>0\<close> .. \<open>9\<close> only.
\<close>

definition digit_val :: "char \<Rightarrow> int option" where
  "digit_val c =
     (let n = (of_char c :: nat) in if 48 \<le> n \<and> n \<le> 57 then Some (int n - 48) else None)"

definition in_range :: "char \<Rightarrow> int \<Rightarrow> int \<Rightarrow> bool" where
  "in_range c lo hi = (case digit_val c of None \<Rightarrow> False | Some v \<Rightarrow> lo \<le> v \<and> v \<le> hi)"

definition dv :: "char \<Rightarrow> int" where
  "dv c = (case digit_val c of None \<Rightarrow> 0 | Some v \<Rightarrow> v)"

fun parse_Y :: "string \<Rightarrow> (int \<times> string) option" where
  "parse_Y (a # b # c # d # rest) =
     (if in_range a 0 9 \<and> in_range b 0 9 \<and> in_range c 0 9 \<and> in_range d 0 9
      then Some (1000 * dv a + 100 * dv b + 10 * dv c + dv d, rest) else None)"
| "parse_Y _ = None"

fun parse_m :: "string \<Rightarrow> (int \<times> string) option" where
  "parse_m (a # b # rest) =
     (if a = CHR ''1'' \<and> in_range b 0 2 then Some (10 + dv b, rest)
      else if a = CHR ''0'' \<and> in_range b 1 9 then Some (dv b, rest)
      else if in_range a 1 9 then Some (dv a, b # rest)
      else None)"
| "parse_m [a] = (if in_range a 1 9 then Some (dv a, []) else None)"
| "parse_m [] = None"

fun parse_d :: "string \<Rightarrow> (int \<times> string) option" where
  "parse_d (a # b # rest) =
     (if a = CHR ''3'' \<and> in_range b 0 1 then Some (30 + dv b, rest)
      else if in_range a 1 2 \<and> in_range b 0 9 then Some (10 * dv a + dv b, rest)
      else if a = CHR ''0'' \<and> in_range b 1 9 then Some (dv b, rest)
      else if in_range a 1 9 then Some (dv a, b # rest)
      else if a = CHR '' '' \<and> in_range b 1 9 then Some (dv b, rest)
      else None)"
| "parse_d [a] = (if in_range a 1 9 then Some (dv a, []) else None)"
| "parse_d [] = None"

fun expect_dash :: "string \<Rightarrow> string option" where
  "expect_dash (c # rest) = (if c = CHR ''-'' then Some rest else None)"
| "expect_dash [] = None"

definition strptime :: "string \<Rightarrow> error + date" where
  "strptime v =
     (case parse_Y v of None \<Rightarrow> Inl DatetimeValueError
      | Some (y, r1) \<Rightarrow>
     (case expect_dash r1 of None \<Rightarrow> Inl DatetimeValueError
      | Some r2 \<Rightarrow>
     (case parse_m r2 of None \<Rightarrow> Inl DatetimeValueError
      | Some (m, r3) \<Rightarrow>
     (case expect_dash r3 of None \<Rightarrow> Inl DatetimeValueError
      | Some r4 \<Rightarrow>
     (case parse_d r4 of None \<Rightarrow> Inl DatetimeValueError
      | Some (d, r5) \<Rightarrow>
        if r5 \<noteq> [] then Inl DatetimeValueError else mk_date y m d)))))"

section \<open>The date and age engine\<close>

text \<open>
  \<^verbatim>\<open>calculate_days_until_birthday\<close> (main.py, lines 151-159).  \<^verbatim>\<open>date.today()\<close> is the
  parameter \<open>today\<close>.  Each of the three library calls can raise, and nothing in the
  function catches.
\<close>

definition calculate_days_until_birthday :: "date \<Rightarrow> string \<Rightarrow> error + int" where
  "calculate_days_until_birthday today birth_date_str =
     (case strptime birth_date_str of Inl e \<Rightarrow> Inl e
      | Inr birth \<Rightarrow>
     (case mk_date (year today) (month birth) (day birth) of Inl e \<Rightarrow> Inl e
      | Inr next_birthday \<Rightarrow>
        if date_less next_birthday today
        then (case mk_date (year today + 1) (month birth) (day birth) of Inl e \<Rightarrow> Inl e
              | Inr next_birthday' \<Rightarrow> Inr (days_between next_birthday' today))
        else Inr (days_between next_birthday today)))"

section \<open>Text helpers\<close>

text \<open>
  \<^verbatim>\<open>str(n)\<close> for an integer, \<^verbatim>\<open>sep.join(xs)\<close>, \<^verbatim>\<open>s.lower()\<close> and \<^verbatim>\<open>s.strip()\<close>.
  Among the code points below 256, \<^verbatim>\<open>lower\<close> moves \<open>A\<close> .. \<open>Z\<close> (65 .. 90) and the
  accented capitals 192 .. 214 and 216 .. 222 up by 32 and leaves the rest, and the white
  space that \<^verbatim>\<open>strip\<close> removes is 9 .. 13, 28 .. 32, 133 and 160.
\<close>

definition digit_char :: "nat \<Rightarrow> char" where
  "digit_char n = ''0123456789'' ! n"

fun str_nat :: "nat \<Rightarrow> string" where
  "str_nat n = (if n < 10 then [digit_char n] else str_nat (n div 10) @ [digit_char (n mod 10)])"

declare str_nat.simps [simp del]

definition str_int :: "int \<Rightarrow> string" where
  "str_int i = (if i < 0 then CHR ''-'' # str_nat (nat (- i)) else str_nat (nat i))"

fun join :: "string \<Rightarrow> string list \<Rightarrow> string" where
  "join sep [] = []"
| "join sep [x] = x"
| "join sep (x # y # ys) = x @ sep @ join sep (y # ys)"

definition lower_char :: "char \<Rightarrow> char" where
  "lower_char c =
     (case map_of (zip ''ABCDEFGHIJKLMNOPQRSTUVWXYZ'' ''abcdefghijklmnopqrstuvwxyz'') c of
        Some l \<Rightarrow> l
      | None \<Rightarrow>
          let n = (of_char c :: nat)
          in if (192 \<le> n \<and> n \<le> 214) \<or> (216 \<le> n \<and> n \<le> 222) then char_of (n + 32) else c)"

definition str_lower :: "string \<Rightarrow> string" where
  "str_lower s = map lower_char s"

definition is_space :: "char \<Rightarrow> bool" where
  "is_space c =
     (let n = (of_char c :: nat)
      in (9 \<le> n \<and> n \<le> 13) \<or> (28 \<le> n \<and> n \<le> 32) \<or> n = 133 \<or> n = 160)"

definition strip :: "string \<Rightarrow> string" where
  "strip s = rev (dropWhile is_space (rev (dropWhile is_space s)))"

section \<open>The request model and its validator\<close>

text \<open>
  \<^verbatim>\<open>class Member(BaseModel)\<close> (main.py, lines 113-133).  The validator of
  \<^verbatim>\<open>birth_date\<close> receives the text \<open>v\<close>; \<^verbatim>\<open>date.today()\<close> is the parameter
  \<open>today\<close>.  A bool subtracted from an integer counts as 0 or 1, and the two pairs are
  compared lexicographically.
\<close>

record Member =
  first_name :: string
  last_name :: string
  birth_date :: string
  country :: string
  city :: string

definition validate_birth_date :: "date \<Rightarrow> string \<Rightarrow> error + string" where
  "validate_birth_date today v =
     (case strptime v of
        Inl e \<Rightarrow> Inl (ValueError ''Birth date must be in YYYY-MM-DD format'')
      | Inr birth \<Rightarrow>
          let age = year today - year birth -
                (if month today < month birth \<or>
                    (month today = month birth \<and> day today < day birth) then 1 else 0)
          in if age < 18
             then Inl (ValueError
                    (''Member must be at least 18 years old. Current age would be '' @ str_int age))
             else Inr v)"

text \<open>Building a \<^verbatim>\<open>Member\<close> from a request body runs the validator on the field.\<close>

definition Member_validate :: "date \<Rightarrow> Member \<Rightarrow> error + Member" where
  "Member_validate today payload =
     (case validate_birth_date today (birth_date payload) of
        Inl e \<Rightarrow> Inl e
      | Inr v \<Rightarrow> Inr (payload\<lparr>birth_date := v\<rparr>))"

text \<open>
  \<^verbatim>\<open>validation_exception_handler\<close> (lines 97-110): each error is its location path and
  its message; the reply has status 422.
\<close>

definition validation_exception_handler :: "(string list \<times> string) list \<Rightarrow> error" where
  "validation_exception_handler errors =
     JSONResponse 422
       (join '' | '' (map (\<lambda>(loc, msg). join '' -> '' loc @ '': '' @ msg) errors))"

text \<open>
  The textual form the specification names, \<^verbatim>\<open>YYYY-MM-DD\<close>: four digits, a dash, two
  digits, a dash, two digits.  This definition follows the specification's words, not the
  source.
\<close>

definition spec_YYYY_MM_DD :: "string \<Rightarrow> bool" where
  "spec_YYYY_MM_DD v =
     (case v of
        [y1, y2, y3, y4, s1, m1, m2, s2, d1, d2] \<Rightarrow>
          in_range y1 0 9 \<and> in_range y2 0 9 \<and> in_range y3 0 9 \<and> in_range y4 0 9 \<and>
          s1 = CHR ''-'' \<and> in_range m1 0 9 \<and> in_range m2 0 9 \<and> s2 = CHR ''-'' \<and>
          in_range d1 0 9 \<and> in_range d2 0 9
      | _ \<Rightarrow> False)"

section \<open>The persistent store\<close>

text \<open>
  The table \<^verbatim>\<open>members\<close> (lines 45-59): its rows in insertion order, and \<open>seq\<close>, the
  largest row id the table has ever held, which \<^verbatim>\<open>AUTOINCREMENT\<close> keeps.  A row extends
  the request's five fields with the key \<^verbatim>\<open>id\<close> (\<open>member_id\<close>) and \<^verbatim>\<open>created_at\<close>.
  The row ids the store assigns are unbounded integers here: the limit of
  \<^verbatim>\<open>AUTOINCREMENT\<close> at the largest 64-bit integer is not modelled.
\<close>

record member_row = Member +
  member_id :: int
  created_at :: string

record store =
  rows :: "member_row list"
  seq :: int

text \<open>\<^verbatim>\<open>UNIQUE(first_name, last_name, country, city)\<close>.\<close>

definition same_key :: "'a Member_scheme \<Rightarrow> 'b Member_scheme \<Rightarrow> bool" where
  "same_key a b =
     (first_name a = first_name b \<and> last_name a = last_name b \<and>
      country a = country b \<and> city a = city b)"

definition next_rowid :: "store \<Rightarrow> int" where
  "next_rowid st = fold max (map member_id (rows st)) (seq st) + 1"

text \<open>
  The \<^verbatim>\<open>INSERT\<close> of \<^verbatim>\<open>create_member\<close> followed by \<^verbatim>\<open>commit\<close>: \<open>None\<close> is
  \<^verbatim>\<open>sqlite3.IntegrityError\<close>, raised when the uniqueness constraint fails, and the
  statement then changes nothing; otherwise the new store and \<^verbatim>\<open>cursor.lastrowid\<close>.
\<close>

definition insert_member :: "store \<Rightarrow> Member \<Rightarrow> string \<Rightarrow> (store \<times> int) option" where
  "insert_member st m now =
     (if \<exists>r \<in> set (rows st). same_key r m then None
      else let i = next_rowid st;
               row = \<lparr>first_name = first_name m, last_name = last_name m,
                      birth_date = birth_date m, country = country m, city = city m,
                      member_id = i, created_at = now\<rparr>
           in Some (st\<lparr>rows := rows st @ [row], seq := i\<rparr>, i))"

text \<open>
  \<^verbatim>\<open>SELECT * FROM members WHERE id = ?\<close> with \<^verbatim>\<open>fetchone\<close>.  The binding raises
  \<^verbatim>\<open>OverflowError\<close> for an id that is not a signed 64-bit integer.
\<close>

definition select_by_id :: "store \<Rightarrow> int \<Rightarrow> error + member_row option" where
  "select_by_id st i =
     (if i < - (2 ^ 63) \<or> 2 ^ 63 - 1 < i then Inl OverflowError
      else Inr (find (\<lambda>r. member_id r = i) (rows st)))"

section \<open>Create\<close>

text \<open>
  \<^verbatim>\<open>create_member\<close> (lines 235-256) on a validated \<^verbatim>\<open>Member\<close>;
  \<^verbatim>\<open>datetime.now().isoformat()\<close> is the parameter \<open>now\<close>.  The reply is the key
  \<^verbatim>\<open>id\<close> (\<open>new_id\<close>) with the five fields of \<^verbatim>\<open>member.model_dump()\<close>.  Nothing
  inside the outer \<^verbatim>\<open>try\<close> raises \<^verbatim>\<open>ValueError\<close>, so its handler is never entered.
  The debug \<^verbatim>\<open>print\<close> is not modelled.
\<close>

record created_member = Member +
  new_id :: int

definition create_member :: "string \<Rightarrow> store \<Rightarrow> Member \<Rightarrow> store \<times> (error + created_member)" where
  "create_member now st member =
     (case insert_member st member now of
        None \<Rightarrow>
          (st, Inl (HTTPException 400
             (''Member with name '' @ [CHR 0x27] @ first_name member @ '' '' @ last_name member @
              [CHR 0x27] @ '' in '' @ city member @ '', '' @ country member @
              '' already exists'')))
      | Some (st', i) \<Rightarrow>
          (st', Inr \<lparr>first_name = first_name member, last_name = last_name member,
                    birth_date = birth_date member, country = country member,
                    city = city member, new_id = i\<rparr>))"

text \<open>
  The route \<^verbatim>\<open>POST /members\<close>: the body is validated into a \<^verbatim>\<open>Member\<close> first; a
  validator's \<^verbatim>\<open>ValueError\<close> reaches the exception handler as an error at
  \<^verbatim>\<open>body -> birth_date\<close> whose message the validation library prefixes with
  \<^verbatim>\<open>Value error, \<close>.
\<close>

definition post_members :: "date \<Rightarrow> string \<Rightarrow> store \<Rightarrow> Member \<Rightarrow> store \<times> (error + created_member)" where
  "post_members today now st payload =
     (case Member_validate today payload of
        Inl (ValueError msg) \<Rightarrow>
          (st, Inl (validation_exception_handler
                      [([''body'', ''birth_date''], ''Value error, '' @ msg)]))
      | Inl e \<Rightarrow> (st, Inl e)
      | Inr member \<Rightarrow> create_member now st member)"

section \<open>List\<close>

text \<open>
  \<^verbatim>\<open>list_members\<close> (lines 259-276).  \<open>list_loop\<close> is the \<^verbatim>\<open>for\<close> loop: it appends
  to \<open>members\<close> and stops at the first row whose computation raises.
  \<^verbatim>\<open>list.sort\<close> is stable, as \<open>sort_key\<close> is.
\<close>

record member_dict = member_row +
  days_until_birthday :: int

definition with_days :: "member_row \<Rightarrow> int \<Rightarrow> member_dict" where
  "with_days row n =
     \<lparr>first_name = first_name row, last_name = last_name row, birth_date = birth_date row,
      country = country row, city = city row, member_id = member_id row,
      created_at = created_at row, days_until_birthday = n\<rparr>"

fun list_loop :: "date \<Rightarrow> member_row list \<Rightarrow> member_dict list \<Rightarrow> error + member_dict list" where
  "list_loop today [] members = Inr members"
| "list_loop today (row # rest) members =
     (case calculate_days_until_birthday today (birth_date row) of
        Inl e \<Rightarrow> Inl e
      | Inr n \<Rightarrow> list_loop today rest (members @ [with_days row n]))"

definition list_members :: "date \<Rightarrow> store \<Rightarrow> bool \<Rightarrow> bool \<Rightarrow> error + member_dict list" where
  "list_members today st sort_by_birthday upcoming_only =
     (case list_loop today (rows st) [] of
        Inl e \<Rightarrow> Inl e
      | Inr members \<Rightarrow>
          let members1 = (if upcoming_only
                          then filter (\<lambda>m. days_until_birthday m \<le> 30) members else members);
              members2 = (if sort_by_birthday
                          then sort_key days_until_birthday members1 else members1)
          in Inr members2)"

section \<open>The message generator\<close>

text \<open>
  The module-level configuration (lines 13-15), the table \<^verbatim>\<open>COUNTRY_LANGUAGES\<close>
  (lines 29-32) and \<^verbatim>\<open>generate_ai_message\<close> (lines 162-226).  The external
  text-generation call is the parameter \<open>ai\<close>: given the prompt it returns the reply's
  content, or \<open>Inl\<close> the text of whatever exception the call raised.  The number
  \<^verbatim>\<open>0.7\<close> is \<open>Float 7 (-1)\<close>, a mantissa and a decimal exponent; the key
  \<^verbatim>\<open>method\<close> of the explanation is the field \<open>gen_method\<close>.
\<close>

record config =
  MOCK_AI :: bool
  OPENAI_API_KEY :: string

definition COUNTRY_LANGUAGES :: "(string \<times> string) list" where
  "COUNTRY_LANGUAGES =
     [(''USA'', ''en''), (''UK'', ''en''), (''Canada'', ''en''), (''Australia'', ''en''),
      (''Germany'', ''de''), (''Japan'', ''ja''), (''Brazil'', ''pt''), (''India'', ''hi'')]"

text \<open>\<^verbatim>\<open>d.get(k, default)\<close> on a dictionary written as a list of pairs.\<close>

definition dict_get :: "(string \<times> 'v) list \<Rightarrow> string \<Rightarrow> 'v \<Rightarrow> 'v" where
  "dict_get d k dflt = (case map_of d k of None \<Rightarrow> dflt | Some v \<Rightarrow> v)"

datatype pvalue = Str string | Num int | Float int int

record explanation =
  model :: string
  gen_method :: string
  parameters :: "(string \<times> pvalue) list"
  rationale :: string

record BirthdayMessage =
  message :: string
  explanation :: explanation

definition friendly_template :: "'a Member_scheme \<Rightarrow> string" where
  "friendly_template member =
     '' Happy Birthday, '' @ first_name member @
     ''! Wishing you an amazing day filled with joy and laughter from all of us at Datavid!''"

definition formal_template :: "'a Member_scheme \<Rightarrow> string" where
  "formal_template member =
     ''Dear '' @ first_name member @ '' '' @ last_name member @
     '', On behalf of Datavid, we wish you a very happy birthday and continued success in the year ahead.''"

definition generate_ai_message ::
  "config \<Rightarrow> (string \<Rightarrow> string + string) \<Rightarrow> 'a Member_scheme \<Rightarrow> string \<Rightarrow> error + BirthdayMessage"
where
  "generate_ai_message cfg ai member tone =
     (if MOCK_AI cfg \<or> OPENAI_API_KEY cfg = [] then
        let tone_templates =
              [(''friendly'', friendly_template member), (''formal'', formal_template member)];
            msg = dict_get tone_templates tone (friendly_template member);
            expl = \<lparr>model = ''mock-generator-v1'',
                    gen_method = ''template_based_generation'',
                    parameters =
                      [(''tone'', Str tone),
                       (''language'', Str (dict_get COUNTRY_LANGUAGES (country member) ''en''))],
                    rationale =
                      ''Generated using a rule-based template system with '' @ tone @
                      '' tone. '' @
                      ''Personalized with member'' @ [CHR 0x27] @
                      ''s first name and considering cultural context from '' @
                      country member @ ''.''\<rparr>
        in Inr \<lparr>message = msg, explanation = expl\<rparr>
      else
        let lang = dict_get COUNTRY_LANGUAGES (country member) ''en'';
            prompt =
              ''Generate a birthday message for a Datavid company member with these details:'' @
              [CHR 0x0A] @ ''- Name: '' @ first_name member @ '' '' @ last_name member @
              [CHR 0x0A] @ ''- Location: '' @ city member @ '', '' @ country member @
              [CHR 0x0A] @ ''- Tone: '' @ tone @
              [CHR 0x0A] @ ''- Language preference: '' @ lang @
              [CHR 0x0A, CHR 0x0A] @
              ''Create a warm, personal birthday message (2-3 sentences max) that reflects the specified tone.''
        in case ai prompt of
             Inl e \<Rightarrow> Inl (HTTPException 500 (''AI generation failed: '' @ e))
           | Inr content \<Rightarrow>
               Inr \<lparr>message = strip content,
                    explanation =
                      \<lparr>model = ''gpt-3.5-turbo'',
                       gen_method = ''chat_completion'',
                       parameters =
                         [(''temperature'', Float 7 (-1)), (''tone'', Str tone),
                          (''max_tokens'', Num 150)],
                       rationale =
                         ''Generated using OpenAI GPT-3.5 with '' @ tone @
                         '' tone setting and temperature 0.7 for creative variation. '' @
                         ''Prompt included member'' @ [CHR 0x27] @ ''s name, location ('' @
                         country member @
                         ''), and language preference to ensure cultural appropriateness.''\<rparr>\<rparr>)"

section \<open>The message and e-mail operations\<close>

text \<open>
  \<^verbatim>\<open>generate_birthday_message\<close> (lines 292-304) and \<^verbatim>\<open>send_birthday_email\<close>
  (lines 307-346): the function bodies first, then the routes, which validate the query
  parameters before the body runs.  Both declare
  \<^verbatim>\<open>tone: str = Query("friendly", pattern="^(friendly|formal)$")\<close>; the pattern is
  anchored at both ends of the text, so it accepts exactly the two words.  A parameter
  that is absent takes its default.  A tone that does not match reaches the exception
  handler as an error at \<^verbatim>\<open>query -> tone\<close>.

  \<^verbatim>\<open>send_birthday_email\<close> returns its reply together with the lines it prints, in order;
  printing is its only effect.  The reply's key \<^verbatim>\<open>message\<close> is the field \<open>message'\<close>.
\<close>

definition generate_birthday_message ::
  "config \<Rightarrow> (string \<Rightarrow> string + string) \<Rightarrow> store \<Rightarrow> int \<Rightarrow> string \<Rightarrow> error + BirthdayMessage"
where
  "generate_birthday_message cfg ai st mid tone =
     (case select_by_id st mid of
        Inl e \<Rightarrow> Inl e
      | Inr None \<Rightarrow> Inl (HTTPException 404 ''Member not found'')
      | Inr (Some row) \<Rightarrow> generate_ai_message cfg ai row tone)"

record email_content =
  to :: string
  subject :: string
  body :: string
  dry_run :: bool

record send_result =
  status :: string
  email :: email_content
  message' :: string

definition send_birthday_email ::
  "config \<Rightarrow> (string \<Rightarrow> string + string) \<Rightarrow> store \<Rightarrow> int \<Rightarrow> string \<Rightarrow> bool
     \<Rightarrow> (error + send_result) \<times> string list"
where
  "send_birthday_email cfg ai st mid tone dry =
     (case select_by_id st mid of
        Inl e \<Rightarrow> (Inl e, [])
      | Inr None \<Rightarrow> (Inl (HTTPException 404 ''Member not found''), [])
      | Inr (Some row) \<Rightarrow>
     (case generate_ai_message cfg ai row tone of
        Inl e \<Rightarrow> (Inl e, [])
      | Inr birthday_msg \<Rightarrow>
          let content =
                \<lparr>to = str_lower (first_name row) @ ''.'' @ str_lower (last_name row) @
                       ''@datavid.com'',
                 subject = ''Happy Birthday, '' @ first_name row @ ''!'',
                 body = message birthday_msg,
                 dry_run = dry\<rparr>
          in if dry
             then (Inr \<lparr>status = ''dry_run'', email = content,
                        message' = ''Email NOT sent (dry-run mode). Email content logged above.''\<rparr>,
                   [])
             else (Inr \<lparr>status = ''sent'', email = content,
                        message' = ''Email sent successfully (simulated)''\<rparr>,
                   [''[EMAIL] To: '' @ to content,
                    ''[EMAIL] Subject: '' @ subject content,
                    ''[EMAIL] Body: '' @ body content])))"

definition tone_pattern :: "string \<Rightarrow> bool" where
  "tone_pattern tone = (tone = ''friendly'' \<or> tone = ''formal'')"

definition tone_error :: error where
  "tone_error =
     validation_exception_handler
       [([''query'', ''tone''],
         ''String should match pattern '' @ [CHR 0x27] @ ''^(friendly|formal)$'' @ [CHR 0x27])]"

definition post_birthday_message ::
  "config \<Rightarrow> (string \<Rightarrow> string + string) \<Rightarrow> store \<Rightarrow> int \<Rightarrow> string option
     \<Rightarrow> error + BirthdayMessage"
where
  "post_birthday_message cfg ai st mid tone_q =
     (case tone_q of
        None \<Rightarrow> generate_birthday_message cfg ai st mid ''friendly''
      | Some tone \<Rightarrow>
          if tone_pattern tone then generate_birthday_message cfg ai st mid tone
          else Inl tone_error)"

definition post_send_email ::
  "config \<Rightarrow> (string \<Rightarrow> string + string) \<Rightarrow> store \<Rightarrow> int \<Rightarrow> string option \<Rightarrow> bool option
     \<Rightarrow> (error + send_result) \<times> string list"
where
  "post_send_email cfg ai st mid tone_q dry_q =
     (let dry = (case dry_q of None \<Rightarrow> True | Some b \<Rightarrow> b)
      in case tone_q of
           None \<Rightarrow> send_birthday_email cfg ai st mid ''friendly'' dry
         | Some tone \<Rightarrow>
             if tone_pattern tone then send_birthday_email cfg ai st mid tone dry
             else (Inl tone_error, []))"

section \<open>Example data\<close>

text \<open>Concrete inputs at which the theorems below are instantiated.\<close>

definition ex_today :: date where
  "ex_today = \<lparr>year = 2026, month = 11, day = 3\<rparr>"

definition ex_rows :: "member_row list" where
  "ex_rows =
     [\<lparr>first_name = ''John'', last_name = ''Smith'', birth_date = ''1990-03-15'',
       country = ''USA'', city = ''New York'', member_id = 1, created_at = ''t1''\<rparr>,
      \<lparr>first_name = ''Emma'', last_name = ''Johnson'', birth_date = ''1985-11-20'',
       country = ''UK'', city = ''London'', member_id = 2, created_at = ''t2''\<rparr>,
      \<lparr>first_name = ''Hans'', last_name = ''Mueller'', birth_date = ''1992-11-08'',
       country = ''Germany'', city = ''Berlin'', member_id = 3, created_at = ''t3''\<rparr>]"

definition ex_store :: store where
  "ex_store = \<lparr>rows = ex_rows, seq = 3\<rparr>"

definition ex_request :: Member where
  "ex_request =
     \<lparr>first_name = ''Test'', last_name = ''User'', birth_date = ''1990-01-01'',
      country = ''USA'', city = ''Boston''\<rparr>"

definition ex_duplicate :: Member where
  "ex_duplicate =
     \<lparr>first_name = ''John'', last_name = ''Smith'', birth_date = ''1980-05-05'',
      country = ''USA'', city = ''New York''\<rparr>"

definition ex_underage :: Member where
  "ex_underage =
     \<lparr>first_name = ''Test'', last_name = ''User'', birth_date = ''2020-01-01'',
      country = ''USA'', city = ''Boston''\<rparr>"

definition ex_leap :: Member where
  "ex_leap =
     \<lparr>first_name = ''Leap'', last_name = ''Day'', birth_date = ''2000-02-29'',
      country = ''UK'', city = ''Leeds''\<rparr>"

definition ex_live_config :: config where
  "ex_live_config = \<lparr>MOCK_AI = False, OPENAI_API_KEY = ''key''\<rparr>"

definition ex_config :: config where
  "ex_config = \<lparr>MOCK_AI = True, OPENAI_API_KEY = ''key''\<rparr>"

definition ex_ai :: "string \<Rightarrow> string + string" where
  "ex_ai prompt = Inl ''no collaborator''"

section \<open>Properties of the calendar arithmetic\<close>

lemma div_pred:
  fixes y k :: int
  assumes "0 < k"
  shows "(y - 1) div k = (if y mod k = 0 then y div k - 1 else y div k)"
proof (cases "y mod k = 0")
  case True
  have "y = (y div k) * k" using True by (metis add.right_neutral div_mult_mod_eq)
  then have "y - 1 = (y div k - 1) * k + (k - 1)" by (simp add: algebra_simps)
  then have "(y - 1) div k = ((y div k - 1) * k + (k - 1)) div k" by (rule arg_cong)
  also have "\<dots> = y div k - 1"
    using assms by (subst div_mult_self3) auto
  finally show ?thesis using True by simp
next
  case False
  have "0 \<le> y mod k" "y mod k < k" using assms by auto
  with False have r: "0 < y mod k" "y mod k < k" by auto
  have "y - 1 = (y div k) * k + (y mod k - 1)" by (simp add: algebra_simps)
  then have "(y - 1) div k = ((y div k) * k + (y mod k - 1)) div k" by (rule arg_cong)
  also have "\<dots> = y div k"
    using assms r by (subst div_mult_self3) auto
  finally show ?thesis using False by simp
qed

lemma mod_400_100: "(y::int) mod 400 = 0 \<Longrightarrow> y mod 100 = 0"
proof -
  assume "y mod 400 = 0"
  then have "400 dvd y" by (simp add: mod_eq_0_iff_dvd)
  moreover have "(100::int) dvd 400" by simp
  ultimately have "100 dvd y" by (rule dvd_trans [rotated])
  then show ?thesis by (simp add: mod_eq_0_iff_dvd)
qed

lemma mod_100_4: "(y::int) mod 100 = 0 \<Longrightarrow> y mod 4 = 0"
proof -
  assume "y mod 100 = 0"
  then have "100 dvd y" by (simp add: mod_eq_0_iff_dvd)
  moreover have "(4::int) dvd 100" by simp
  ultimately have "4 dvd y" by (rule dvd_trans [rotated])
  then show ?thesis by (simp add: mod_eq_0_iff_dvd)
qed

lemma days_before_year_Suc:
  "days_before_year (y + 1) = days_before_year y + (if is_leap y then 366 else 365)"
proof -
  have a: "(y - 1) div 4 = (if y mod 4 = 0 then y div 4 - 1 else y div 4)" by (rule div_pred) simp
  have b: "(y - 1) div 100 = (if y mod 100 = 0 then y div 100 - 1 else y div 100)" by (rule div_pred) simp
  have c: "(y - 1) div 400 = (if y mod 400 = 0 then y div 400 - 1 else y div 400)" by (rule div_pred) simp
  show ?thesis
    unfolding days_before_year_def is_leap_def Let_def
    using a b c mod_400_100 [of y] mod_100_4 [of y] by (auto simp: algebra_simps)
qed

lemma days_before_year_less: "days_before_year y < days_before_year (y + 1)"
  by (simp add: days_before_year_Suc)

lemma days_before_year_mono_nat: "days_before_year y \<le> days_before_year (y + int n)"
proof (induction n)
  case 0
  then show ?case by simp
next
  case (Suc n)
  have "days_before_year (y + int n) \<le> days_before_year (y + int n + 1)"
    using days_before_year_less [of "y + int n"] by simp
  with Suc show ?case by (simp add: ac_simps)
qed

lemma days_before_year_mono: "y \<le> z \<Longrightarrow> days_before_year y \<le> days_before_year z"
  using days_before_year_mono_nat [of y "nat (z - y)"] by simp


lemma month_cases:
  "1 \<le> m \<Longrightarrow> m \<le> 12 \<Longrightarrow>
   m = (1::int) \<or> m = 2 \<or> m = 3 \<or> m = 4 \<or> m = 5 \<or> m = 6 \<or> m = 7 \<or> m = 8 \<or> m = 9 \<or> m = 10
     \<or> m = 11 \<or> m = 12"
  by arith

lemma month_end_le:
  "1 \<le> m \<Longrightarrow> m \<le> 12 \<Longrightarrow>
   days_before_month y m + days_in_month y m \<le> (if is_leap y then 366 else 365)"
  using month_cases [of m]
  by (auto simp: days_before_month_def days_in_month_def DAYS_BEFORE_MONTH_def DAYS_IN_MONTH_def)

lemma days_before_month_nonneg: "1 \<le> m \<Longrightarrow> m \<le> 12 \<Longrightarrow> 0 \<le> days_before_month y m"
  using month_cases [of m]
  by (auto simp: days_before_month_def DAYS_BEFORE_MONTH_def)

lemma month_end_mono:
  "1 \<le> m \<Longrightarrow> m < m' \<Longrightarrow> m' \<le> 12 \<Longrightarrow>
   days_before_month y m + days_in_month y m \<le> days_before_month y m'"
  using month_cases [of m] month_cases [of m']
  by (auto simp: days_before_month_def days_in_month_def DAYS_BEFORE_MONTH_def DAYS_IN_MONTH_def)

lemma ymd2ord_bounds:
  assumes "check_date_fields y m d"
  shows "days_before_year y < ymd2ord y m d" and "ymd2ord y m d \<le> days_before_year (y + 1)"
proof -
  from assms have m: "1 \<le> m" "m \<le> 12" and d: "1 \<le> d" "d \<le> days_in_month y m"
    by (auto simp: check_date_fields_def)
  show "days_before_year y < ymd2ord y m d"
    using days_before_month_nonneg [OF m, of y] d by (simp add: ymd2ord_def)
  show "ymd2ord y m d \<le> days_before_year (y + 1)"
    using month_end_le [OF m, of y] d by (simp add: ymd2ord_def days_before_year_Suc)
qed

lemma ymd2ord_same_year:
  assumes "check_date_fields y m d" "check_date_fields y m' d'"
    and "m < m' \<or> (m = m' \<and> d < d')"
  shows "ymd2ord y m d < ymd2ord y m' d'"
proof -
  from assms have m: "1 \<le> m" "m \<le> 12" "1 \<le> m'" "m' \<le> 12"
    and d: "1 \<le> d" "d \<le> days_in_month y m" "1 \<le> d'"
    by (auto simp: check_date_fields_def)
  show ?thesis
  proof (cases "m < m'")
    case True
    then show ?thesis using month_end_mono [of m m' y] m d by (simp add: ymd2ord_def)
  next
    case False
    with assms(3) show ?thesis by (simp add: ymd2ord_def)
  qed
qed

lemma ymd2ord_next_year:
  assumes "check_date_fields y m d"
  shows "ymd2ord (y + 1) m d \<le> ymd2ord y m d + 366"
    and "ymd2ord y m d + 365 \<le> ymd2ord (y + 1) m d"
  using assms month_cases [of m]
  by (auto simp: ymd2ord_def days_before_year_Suc days_before_month_def check_date_fields_def)

lemma toordinal_mono:
  assumes "valid_date a" "valid_date b" "date_less a b"
  shows "toordinal a < toordinal b"
proof (cases "year a < year b")
  case True
  then have "year a + 1 \<le> year b" by simp
  then have "days_before_year (year a + 1) \<le> days_before_year (year b)"
    by (rule days_before_year_mono)
  with ymd2ord_bounds(2) [of "year a" "month a" "day a"]
    ymd2ord_bounds(1) [of "year b" "month b" "day b"] assms(1,2)
  show ?thesis by (simp add: toordinal_def valid_date_def)
next
  case False
  with assms(3) have y: "year a = year b"
    and md: "month a < month b \<or> (month a = month b \<and> day a < day b)"
    by (auto simp: date_less_def)
  show ?thesis
    using ymd2ord_same_year [of "year b" "month a" "day a" "month b" "day b"] assms(1,2) y md
    by (simp add: toordinal_def valid_date_def)
qed

lemma date_trichotomy: "date_less a b \<or> a = b \<or> date_less b a"
  by (cases a, cases b) (auto simp: date_less_def)

lemma mk_date_Inr: "check_date_fields y m d \<Longrightarrow> mk_date y m d = Inr \<lparr>year = y, month = m, day = d\<rparr>"
  by (simp add: mk_date_def)

lemma strptime_valid: "strptime s = Inr t \<Longrightarrow> valid_date t"
  by (auto simp: strptime_def mk_date_def valid_date_def split: option.splits if_splits)

lemma toordinal_le:
  assumes "valid_date a" "valid_date b" "\<not> date_less a b"
  shows "toordinal b \<le> toordinal a"
  using date_trichotomy [of a b] toordinal_mono [OF assms(2,1)] assms(3) by auto

lemma days_until_this_year:
  assumes t: "valid_date today"
    and c: "check_date_fields (year today) m d"
    and n: "\<not> date_less \<lparr>year = year today, month = m, day = d\<rparr> today"
  shows "0 \<le> days_between \<lparr>year = year today, month = m, day = d\<rparr> today"
    and "days_between \<lparr>year = year today, month = m, day = d\<rparr> today \<le> 365"
proof -
  let ?c = "\<lparr>year = year today, month = m, day = d\<rparr>"
  have v: "valid_date ?c" using c by (simp add: valid_date_def)
  show "0 \<le> days_between ?c today"
    using toordinal_le [OF v t n] by (simp add: days_between_def)
  have "toordinal ?c \<le> days_before_year (year today + 1)"
    using ymd2ord_bounds(2) [OF c] by (simp add: toordinal_def)
  moreover have "days_before_year (year today) < toordinal today"
    using ymd2ord_bounds(1) [of "year today" "month today" "day today"] t
    by (simp add: toordinal_def valid_date_def)
  ultimately show "days_between ?c today \<le> 365"
    by (simp add: days_between_def days_before_year_Suc split: if_splits)
qed

lemma days_until_next_year:
  assumes t: "valid_date today"
    and c: "check_date_fields (year today) m d"
    and c': "check_date_fields (year today + 1) m d"
    and l: "date_less \<lparr>year = year today, month = m, day = d\<rparr> today"
  shows "1 \<le> days_between \<lparr>year = year today + 1, month = m, day = d\<rparr> today"
    and "days_between \<lparr>year = year today + 1, month = m, day = d\<rparr> today \<le> 365"
proof -
  let ?c = "\<lparr>year = year today, month = m, day = d\<rparr>"
  let ?n = "\<lparr>year = year today + 1, month = m, day = d\<rparr>"
  have v: "valid_date ?c" using c by (simp add: valid_date_def)
  have lt: "toordinal ?c < toordinal today" by (rule toordinal_mono [OF v t l])
  have "toordinal today \<le> days_before_year (year today + 1)"
    using ymd2ord_bounds(2) [of "year today" "month today" "day today"] t
    by (simp add: toordinal_def valid_date_def)
  moreover have "days_before_year (year today + 1) < toordinal ?n"
    using ymd2ord_bounds(1) [OF c'] by (simp add: toordinal_def)
  ultimately show "1 \<le> days_between ?n today" by (simp add: days_between_def)
  have "toordinal ?n \<le> toordinal ?c + 366"
    using ymd2ord_next_year(1) [OF c] by (simp add: toordinal_def)
  with lt show "days_between ?n today \<le> 365" by (simp add: days_between_def)
qed

lemma calc_this_year:
  assumes "strptime s = Inr birth"
    and "cand = \<lparr>year = year today, month = month birth, day = day birth\<rparr>"
    and "valid_date cand" and "\<not> date_less cand today"
  shows "calculate_days_until_birthday today s = Inr (days_between cand today)"
  using assms by (simp add: calculate_days_until_birthday_def mk_date_Inr valid_date_def)

lemma calc_next_year:
  assumes "strptime s = Inr birth"
    and "cand = \<lparr>year = year today, month = month birth, day = day birth\<rparr>"
    and "valid_date cand" and "date_less cand today"
    and "nxt = \<lparr>year = year today + 1, month = month birth, day = day birth\<rparr>"
    and "valid_date nxt"
  shows "calculate_days_until_birthday today s = Inr (days_between nxt today)"
  using assms by (simp add: calculate_days_until_birthday_def mk_date_Inr valid_date_def)

lemma calc_today:
  assumes "strptime s = Inr birth" "valid_date today"
    and "month birth = month today" "day birth = day today"
  shows "calculate_days_until_birthday today s = Inr 0"
proof -
  have e: "today = \<lparr>year = year today, month = month birth, day = day birth\<rparr>"
    using assms(3,4) by simp
  have n: "\<not> date_less today today" by (simp add: date_less_def)
  show ?thesis
    using calc_this_year [OF assms(1) e assms(2) n] by (simp add: days_between_def)
qed

lemma days_before_month_zero:
  "1 \<le> m \<Longrightarrow> m \<le> 12 \<Longrightarrow> days_before_month y m = 0 \<Longrightarrow> m = 1"
  using month_cases [of m]
  by (auto simp: days_before_month_def DAYS_BEFORE_MONTH_def split: if_splits)

lemma calc_tomorrow:
  assumes s: "strptime s = Inr birth" and t: "valid_date today"
    and v: "valid_date tomorrow" and o: "toordinal tomorrow = toordinal today + 1"
    and md: "month birth = month tomorrow" "day birth = day tomorrow"
  shows "calculate_days_until_birthday today s = Inr 1"
proof (cases "year tomorrow = year today")
  case True
  then have e: "tomorrow = \<lparr>year = year today, month = month birth, day = day birth\<rparr>"
    using md by simp
  have n: "\<not> date_less tomorrow today"
    using toordinal_mono [OF v t] o by auto
  show ?thesis
    using calc_this_year [OF s e v n] o by (simp add: days_between_def)
next
  case False
  have "\<not> date_less tomorrow today" using toordinal_mono [OF v t] o by auto
  moreover have "tomorrow \<noteq> today" using o by auto
  ultimately have "date_less today tomorrow" using date_trichotomy [of today tomorrow] by auto
  with False have y: "year today < year tomorrow" by (auto simp: date_less_def)
  have ct: "check_date_fields (year today) (month today) (day today)"
    and cv: "check_date_fields (year tomorrow) (month tomorrow) (day tomorrow)"
    using t v by (simp_all add: valid_date_def)
  have a: "toordinal today \<le> days_before_year (year today + 1)"
    using ymd2ord_bounds(2) [OF ct] by (simp add: toordinal_def)
  have b: "days_before_year (year tomorrow) < toordinal tomorrow"
    using ymd2ord_bounds(1) [OF cv] by (simp add: toordinal_def)
  have m1: "days_before_year (year today + 1) \<le> days_before_year (year tomorrow)"
    using y by (intro days_before_year_mono) simp
  have yy: "year tomorrow = year today + 1"
  proof (rule ccontr)
    assume "year tomorrow \<noteq> year today + 1"
    with y have "year today + 1 + 1 \<le> year tomorrow" by simp
    then have "days_before_year (year today + 1 + 1) \<le> days_before_year (year tomorrow)"
      by (rule days_before_year_mono)
    with days_before_year_less [of "year today + 1"] a b o show False by simp
  qed
  have eq: "toordinal tomorrow = days_before_year (year today + 1) + 1"
    and last: "toordinal today = days_before_year (year today + 1)"
    using a b m1 o yy by simp_all
  have mm: "1 \<le> month tomorrow" "month tomorrow \<le> 12" and dd: "1 \<le> day tomorrow"
    using cv by (simp_all add: check_date_fields_def)
  have "days_before_month (year tomorrow) (month tomorrow) + day tomorrow = 1"
    using eq yy by (simp add: toordinal_def ymd2ord_def)
  with days_before_month_nonneg [OF mm, of "year tomorrow"] dd
  have z: "days_before_month (year tomorrow) (month tomorrow) = 0" and d1: "day tomorrow = 1"
    by simp_all
  have mo: "month tomorrow = 1" by (rule days_before_month_zero [OF mm z])
  define cand where "cand = \<lparr>year = year today, month = month birth, day = day birth\<rparr>"
  have e: "tomorrow = \<lparr>year = year today + 1, month = month birth, day = day birth\<rparr>"
    using yy md by simp
  have vc: "valid_date cand"
    using ct md mo d1
    by (simp add: cand_def valid_date_def check_date_fields_def days_in_month_def
        DAYS_IN_MONTH_def)
  have "toordinal cand = days_before_year (year today) + 1"
    using md mo d1
    by (simp add: cand_def toordinal_def ymd2ord_def days_before_month_def DAYS_BEFORE_MONTH_def)
  then have "toordinal cand < toordinal today"
    using last by (simp add: days_before_year_Suc)
  then have l: "date_less cand today"
    using toordinal_le [OF vc t] by auto
  show ?thesis
    using calc_next_year [OF s cand_def vc l e v] o by (simp add: days_between_def)
qed

section \<open>Days until the next birthday\<close>

text \<open>The definitions a concrete evaluation unfolds.\<close>

lemmas eval_defs =
  strptime_def in_range_def digit_val_def dv_def mk_date_def check_date_fields_def
  MINYEAR_def MAXYEAR_def days_in_month_def DAYS_IN_MONTH_def is_leap_def
  calculate_days_until_birthday_def date_less_def days_between_def toordinal_def ymd2ord_def
  days_before_year_def days_before_month_def DAYS_BEFORE_MONTH_def valid_date_def


lemmas text_defs = str_int_def str_nat.simps digit_char_def str_lower_def lower_char_def

lemmas ex_defs = ex_today_def ex_rows_def ex_store_def ex_request_def ex_duplicate_def
  ex_underage_def ex_leap_def ex_live_config_def ex_config_def ex_ai_def

text \<open>
  Claim C1.  Let \<open>today\<close> be a valid date and \<open>s\<close> a text that parses to the date
  \<open>birth\<close>.  If the birth month and day exist as a date in today's year, and also in the
  next year whenever this year's occurrence is strictly before \<open>today\<close>, then
  \<open>calculate_days_until_birthday\<close> returns the difference in days between the occurrence
  it chose (next year's if this year's is strictly before \<open>today\<close>, this year's
  otherwise) and \<open>today\<close>, and that number lies between 0 and 366.  A birth month and day
  equal to today's give 0; the month and day of the date one day after \<open>today\<close> give 1.
\<close>

theorem calculate_days_until_birthday_spec:
  assumes "valid_date today" and "strptime s = Inr birth"
  shows
    "(check_date_fields (year today) (month birth) (day birth) \<and>
      (date_less \<lparr>year = year today, month = month birth, day = day birth\<rparr> today \<longrightarrow>
         check_date_fields (year today + 1) (month birth) (day birth)) \<longrightarrow>
      (\<exists>n. calculate_days_until_birthday today s = Inr n \<and>
           n = days_between
                 (if date_less \<lparr>year = year today, month = month birth, day = day birth\<rparr> today
                  then \<lparr>year = year today + 1, month = month birth, day = day birth\<rparr>
                  else \<lparr>year = year today, month = month birth, day = day birth\<rparr>) today \<and>
           0 \<le> n \<and> n \<le> 366)) \<and>
     (month birth = month today \<and> day birth = day today \<longrightarrow>
        calculate_days_until_birthday today s = Inr 0) \<and>
     (\<forall>tomorrow. valid_date tomorrow \<and> toordinal tomorrow = toordinal today + 1 \<and>
        month birth = month tomorrow \<and> day birth = day tomorrow \<longrightarrow>
        calculate_days_until_birthday today s = Inr 1)"
proof (intro conjI impI allI)
  let ?c = "\<lparr>year = year today, month = month birth, day = day birth\<rparr>"
  let ?n = "\<lparr>year = year today + 1, month = month birth, day = day birth\<rparr>"
  assume h: "check_date_fields (year today) (month birth) (day birth) \<and>
      (date_less ?c today \<longrightarrow> check_date_fields (year today + 1) (month birth) (day birth))"
  then have c: "check_date_fields (year today) (month birth) (day birth)" by simp
  have vc: "valid_date ?c" using c by (simp add: valid_date_def)
  show "\<exists>n. calculate_days_until_birthday today s = Inr n \<and>
           n = days_between (if date_less ?c today then ?n else ?c) today \<and> 0 \<le> n \<and> n \<le> 366"
  proof (cases "date_less ?c today")
    case True
    with h have c': "check_date_fields (year today + 1) (month birth) (day birth)" by simp
    then have vn: "valid_date ?n" by (simp add: valid_date_def)
    have "calculate_days_until_birthday today s = Inr (days_between ?n today)"
      by (rule calc_next_year [OF assms(2) refl vc True refl vn])
    with True days_until_next_year [OF assms(1) c c' True] show ?thesis by simp
  next
    case False
    have "calculate_days_until_birthday today s = Inr (days_between ?c today)"
      by (rule calc_this_year [OF assms(2) refl vc False])
    with False days_until_this_year [OF assms(1) c False] show ?thesis by simp
  qed
next
  assume "month birth = month today \<and> day birth = day today"
  then show "calculate_days_until_birthday today s = Inr 0"
    using calc_today [OF assms(2,1)] by simp
next
  fix tomorrow
  assume "valid_date tomorrow \<and> toordinal tomorrow = toordinal today + 1 \<and>
        month birth = month tomorrow \<and> day birth = day tomorrow"
  then show "calculate_days_until_birthday today s = Inr 1"
    using calc_tomorrow [OF assms(2,1), of tomorrow] by simp
qed

theorem calculate_days_until_birthday_spec_witness:
  "valid_date \<lparr>year = 2026, month = 11, day = 3\<rparr> \<and>
   strptime ''1990-03-15'' = Inr \<lparr>year = 1990, month = 3, day = 15\<rparr> \<and>
   calculate_days_until_birthday \<lparr>year = 2026, month = 11, day = 3\<rparr> ''1990-03-15'' = Inr 132 \<and>
   calculate_days_until_birthday \<lparr>year = 2026, month = 11, day = 3\<rparr> ''1990-11-03'' = Inr 0 \<and>
   toordinal \<lparr>year = 2026, month = 11, day = 4\<rparr>
     = toordinal \<lparr>year = 2026, month = 11, day = 3\<rparr> + 1 \<and>
   calculate_days_until_birthday \<lparr>year = 2026, month = 11, day = 3\<rparr> ''1985-11-04'' = Inr 1"
proof -
  let ?t = "\<lparr>year = 2026, month = 11, day = 3\<rparr>"
  let ?u = "\<lparr>year = 2026, month = 11, day = 4\<rparr>"
  have t: "valid_date ?t" by (simp add: eval_defs)
  have u: "valid_date ?u" by (simp add: eval_defs)
  have s1: "strptime ''1990-03-15'' = Inr \<lparr>year = 1990, month = 3, day = 15\<rparr>"
    by (simp add: eval_defs)
  have s2: "strptime ''1990-11-03'' = Inr \<lparr>year = 1990, month = 11, day = 3\<rparr>"
    by (simp add: eval_defs)
  have s3: "strptime ''1985-11-04'' = Inr \<lparr>year = 1985, month = 11, day = 4\<rparr>"
    by (simp add: eval_defs)
  have o: "toordinal ?u = toordinal ?t + 1" by (simp add: eval_defs)
  have c: "check_date_fields 2026 3 15" "check_date_fields 2027 3 15" by (simp_all add: eval_defs)
  have l: "date_less \<lparr>year = 2026, month = 3, day = 15\<rparr> ?t" by (simp add: date_less_def)
  have d: "days_between \<lparr>year = 2027, month = 3, day = 15\<rparr> ?t = 132" by (simp add: eval_defs)
  have a1: "calculate_days_until_birthday ?t ''1990-03-15'' = Inr 132"
    using calculate_days_until_birthday_spec [OF t s1, THEN conjunct1] c l d by simp
  have a2: "calculate_days_until_birthday ?t ''1990-11-03'' = Inr 0"
    using calculate_days_until_birthday_spec [OF t s2, THEN conjunct2, THEN conjunct1] by simp
  have a3: "calculate_days_until_birthday ?t ''1985-11-04'' = Inr 1"
    using calculate_days_until_birthday_spec [OF t s3, THEN conjunct2, THEN conjunct2,
        rule_format, of ?u] u o by simp
  from t s1 a1 a2 o a3 show ?thesis by simp
qed


text \<open>
  Claim C3.  The validator accepts a birth date of 29 February, and for such a birth date
  \<open>calculate_days_until_birthday\<close> raises instead of returning a number whenever the
  year it builds the occurrence in is not a leap year: the current year (first two
  equations below) or the next year (last equation).
\<close>

theorem leap_day_birthday_raises:
  "validate_birth_date \<lparr>year = 2025, month = 6, day = 1\<rparr> ''2000-02-29'' = Inr ''2000-02-29'' \<and>
   calculate_days_until_birthday \<lparr>year = 2025, month = 6, day = 1\<rparr> ''2000-02-29''
     = Inl DatetimeValueError \<and>
   calculate_days_until_birthday \<lparr>year = 2024, month = 3, day = 1\<rparr> ''2000-02-29''
     = Inl DatetimeValueError"
  by (simp add: eval_defs validate_birth_date_def)



section \<open>Listing\<close>

lemma list_loop_append:
  "list_loop today rs acc =
     (case list_loop today rs [] of Inl e \<Rightarrow> Inl e | Inr ms \<Rightarrow> Inr (acc @ ms))"
proof (induction rs arbitrary: acc)
  case Nil
  then show ?case by simp
next
  case (Cons r rs)
  show ?case
  proof (cases "calculate_days_until_birthday today (birth_date r)")
    case (Inl e)
    then show ?thesis by simp
  next
    case (Inr n)
    then show ?thesis
      using Cons.IH [of "acc @ [with_days r n]"] Cons.IH [of "[with_days r n]"]
      by (simp split: sum.splits)
  qed
qed

lemma list_loop_Inr:
  "list_loop today rs [] = Inr ms \<Longrightarrow>
   length ms = length rs \<and>
   (\<forall>i < length rs. calculate_days_until_birthday today (birth_date (rs ! i))
        = Inr (days_until_birthday (ms ! i)) \<and>
      ms ! i = with_days (rs ! i) (days_until_birthday (ms ! i)))"
proof (induction rs arbitrary: ms)
  case Nil
  then show ?case by simp
next
  case (Cons r rs)
  from Cons.prems obtain n where n: "calculate_days_until_birthday today (birth_date r) = Inr n"
    by (cases "calculate_days_until_birthday today (birth_date r)") auto
  with Cons.prems have "list_loop today rs [with_days r n] = Inr ms" by simp
  then obtain ms' where ms': "list_loop today rs [] = Inr ms'" and ms: "ms = with_days r n # ms'"
    using list_loop_append [of today rs "[with_days r n]"] by (auto split: sum.splits)
  have d: "days_until_birthday (with_days r n) = n" by (simp add: with_days_def)
  show ?case
    using Cons.IH [OF ms'] n ms d by (auto simp: nth_Cons split: nat.splits)
qed

lemma list_loop_total:
  "(\<forall>r \<in> set rs. \<exists>n. calculate_days_until_birthday today (birth_date r) = Inr n) \<Longrightarrow>
   \<exists>ms. list_loop today rs acc = Inr ms"
  by (induction rs arbitrary: acc) auto

lemma list_loop_fails:
  "r \<in> set rs \<Longrightarrow> calculate_days_until_birthday today (birth_date r) = Inl e \<Longrightarrow>
   \<exists>e'. list_loop today rs acc = Inl e'"
  by (induction rs arbitrary: acc) (auto split: sum.splits)

text \<open>
  The list pipeline.  Whenever the computation returns for every stored record, the list
  operation returns.  Whenever it returns, its result is obtained from the stored
  records, each kept field by field and extended with its own days-until-birthday value,
  by first keeping exactly those with a value of at most 30 (when \<open>upcoming_only\<close>) and
  then sorting ascending by that value (when \<open>sort_by_birthday\<close>); so an
  \<open>upcoming_only\<close> result holds only values of at most 30, and a sorted result has
  non-decreasing values.  When the computation raises for some stored record, the
  operation raises.
\<close>

lemma with_days_fields:
  "first_name (with_days row n) = first_name row"
  "last_name (with_days row n) = last_name row"
  "birth_date (with_days row n) = birth_date row"
  "country (with_days row n) = country row"
  "city (with_days row n) = city row"
  "member_id (with_days row n) = member_id row"
  "created_at (with_days row n) = created_at row"
  "days_until_birthday (with_days row n) = n"
  by (simp_all add: with_days_def)

lemma list_members_spec:
  "((\<forall>r \<in> set (rows st). \<exists>n. calculate_days_until_birthday today (birth_date r) = Inr n) \<longrightarrow>
      (\<exists>result. list_members today st sort_by_birthday upcoming_only = Inr result)) \<and>
   (\<forall>result. list_members today st sort_by_birthday upcoming_only = Inr result \<longrightarrow>
      (\<exists>members.
         length members = length (rows st) \<and>
         (\<forall>i < length (rows st).
            calculate_days_until_birthday today (birth_date (rows st ! i))
              = Inr (days_until_birthday (members ! i)) \<and>
            first_name (members ! i) = first_name (rows st ! i) \<and>
            last_name (members ! i) = last_name (rows st ! i) \<and>
            birth_date (members ! i) = birth_date (rows st ! i) \<and>
            country (members ! i) = country (rows st ! i) \<and>
            city (members ! i) = city (rows st ! i) \<and>
            member_id (members ! i) = member_id (rows st ! i) \<and>
            created_at (members ! i) = created_at (rows st ! i)) \<and>
         result =
           (if sort_by_birthday then sort_key days_until_birthday else (\<lambda>xs. xs))
             ((if upcoming_only then filter (\<lambda>m. days_until_birthday m \<le> 30) else (\<lambda>xs. xs))
                members) \<and>
         (upcoming_only \<longrightarrow>
            set result = {m \<in> set members. days_until_birthday m \<le> 30} \<and>
            (\<forall>m \<in> set result. days_until_birthday m \<le> 30)) \<and>
         (sort_by_birthday \<longrightarrow> sorted (map days_until_birthday result)))) \<and>
   ((\<exists>r \<in> set (rows st). \<exists>e. calculate_days_until_birthday today (birth_date r) = Inl e) \<longrightarrow>
      (\<exists>e. list_members today st sort_by_birthday upcoming_only = Inl e))"
proof (intro conjI impI allI)
  assume "\<forall>r \<in> set (rows st). \<exists>n. calculate_days_until_birthday today (birth_date r) = Inr n"
  then obtain ms where "list_loop today (rows st) [] = Inr ms"
    using list_loop_total [of "rows st" today "[]"] by blast
  then show "\<exists>result. list_members today st sort_by_birthday upcoming_only = Inr result"
    by (simp add: list_members_def Let_def)
next
  fix result
  assume r: "list_members today st sort_by_birthday upcoming_only = Inr result"
  then obtain members where m: "list_loop today (rows st) [] = Inr members"
    by (cases "list_loop today (rows st) []") (auto simp: list_members_def)
  let ?f = "(if upcoming_only then filter (\<lambda>m. days_until_birthday m \<le> 30) else (\<lambda>xs. xs))"
  let ?s = "(if sort_by_birthday then sort_key days_until_birthday else (\<lambda>xs. xs))"
  have res: "result = ?s (?f members)"
    using r m by (simp add: list_members_def Let_def split: if_splits)
  have up: "upcoming_only \<longrightarrow> set result = {m \<in> set members. days_until_birthday m \<le> 30} \<and>
            (\<forall>m \<in> set result. days_until_birthday m \<le> 30)"
    using res by auto
  have so: "sort_by_birthday \<longrightarrow> sorted (map days_until_birthday result)"
    using res by simp
  have len: "length members = length (rows st)" using list_loop_Inr [OF m] by simp
  have each: "\<forall>i < length (rows st).
            calculate_days_until_birthday today (birth_date (rows st ! i))
              = Inr (days_until_birthday (members ! i)) \<and>
            first_name (members ! i) = first_name (rows st ! i) \<and>
            last_name (members ! i) = last_name (rows st ! i) \<and>
            birth_date (members ! i) = birth_date (rows st ! i) \<and>
            country (members ! i) = country (rows st ! i) \<and>
            city (members ! i) = city (rows st ! i) \<and>
            member_id (members ! i) = member_id (rows st ! i) \<and>
            created_at (members ! i) = created_at (rows st ! i)"
  proof (intro allI impI)
    fix i assume i: "i < length (rows st)"
    from list_loop_Inr [OF m] i
    have c: "calculate_days_until_birthday today (birth_date (rows st ! i))
              = Inr (days_until_birthday (members ! i))"
      and w: "members ! i = with_days (rows st ! i) (days_until_birthday (members ! i))"
      by blast+
    show "calculate_days_until_birthday today (birth_date (rows st ! i))
              = Inr (days_until_birthday (members ! i)) \<and>
            first_name (members ! i) = first_name (rows st ! i) \<and>
            last_name (members ! i) = last_name (rows st ! i) \<and>
            birth_date (members ! i) = birth_date (rows st ! i) \<and>
            country (members ! i) = country (rows st ! i) \<and>
            city (members ! i) = city (rows st ! i) \<and>
            member_id (members ! i) = member_id (rows st ! i) \<and>
            created_at (members ! i) = created_at (rows st ! i)"
      using c with_days_fields [of "rows st ! i" "days_until_birthday (members ! i)"]
      unfolding w [symmetric] by simp
  qed
  show "\<exists>members.
         length members = length (rows st) \<and>
         (\<forall>i < length (rows st).
            calculate_days_until_birthday today (birth_date (rows st ! i))
              = Inr (days_until_birthday (members ! i)) \<and>
            first_name (members ! i) = first_name (rows st ! i) \<and>
            last_name (members ! i) = last_name (rows st ! i) \<and>
            birth_date (members ! i) = birth_date (rows st ! i) \<and>
            country (members ! i) = country (rows st ! i) \<and>
            city (members ! i) = city (rows st ! i) \<and>
            member_id (members ! i) = member_id (rows st ! i) \<and>
            created_at (members ! i) = created_at (rows st ! i)) \<and>
         result = ?s (?f members) \<and>
         (upcoming_only \<longrightarrow>
            set result = {m \<in> set members. days_until_birthday m \<le> 30} \<and>
            (\<forall>m \<in> set result. days_until_birthday m \<le> 30)) \<and>
         (sort_by_birthday \<longrightarrow> sorted (map days_until_birthday result))"
    using len each res up so by (intro exI [of _ members]) blast
next
  assume "\<exists>r \<in> set (rows st). \<exists>e. calculate_days_until_birthday today (birth_date r) = Inl e"
  then obtain e where "list_loop today (rows st) [] = Inl e"
    using list_loop_fails [of _ "rows st" today _ "[]"] by blast
  then show "\<exists>e. list_members today st sort_by_birthday upcoming_only = Inl e"
    by (simp add: list_members_def)
qed

lemma list_members_example:
  "list_members ex_today ex_store True True =
     Inr [\<lparr>first_name = ''Hans'', last_name = ''Mueller'', birth_date = ''1992-11-08'',
           country = ''Germany'', city = ''Berlin'', member_id = 3, created_at = ''t3'',
           days_until_birthday = 5\<rparr>,
          \<lparr>first_name = ''Emma'', last_name = ''Johnson'', birth_date = ''1985-11-20'',
           country = ''UK'', city = ''London'', member_id = 2, created_at = ''t2'',
           days_until_birthday = 17\<rparr>]"
  by (simp add: list_members_def ex_defs eval_defs with_days_def)

text \<open>
  Claim C5.  The create route accepts a member born on 29 February 2000 on 3 November
  2026 and stores it; on the store so produced the list operation raises for each of the
  four combinations of the two toggles, because the computation of that record's value
  raises: it returns neither a filtered nor a sorted list.
\<close>

theorem list_members_leap_day_raises:
  "post_members ex_today ''now'' ex_store ex_leap =
     (\<lparr>rows = ex_rows @
         [\<lparr>first_name = ''Leap'', last_name = ''Day'', birth_date = ''2000-02-29'',
           country = ''UK'', city = ''Leeds'', member_id = 4, created_at = ''now''\<rparr>],
       seq = 4\<rparr>,
      Inr \<lparr>first_name = ''Leap'', last_name = ''Day'', birth_date = ''2000-02-29'',
           country = ''UK'', city = ''Leeds'', new_id = 4\<rparr>) \<and>
   list_members ex_today (fst (post_members ex_today ''now'' ex_store ex_leap)) False False
     = Inl DatetimeValueError \<and>
   list_members ex_today (fst (post_members ex_today ''now'' ex_store ex_leap)) False True
     = Inl DatetimeValueError \<and>
   list_members ex_today (fst (post_members ex_today ''now'' ex_store ex_leap)) True False
     = Inl DatetimeValueError \<and>
   list_members ex_today (fst (post_members ex_today ''now'' ex_store ex_leap)) True True
     = Inl DatetimeValueError"
proof -
  have p: "post_members ex_today ''now'' ex_store ex_leap =
     (\<lparr>rows = ex_rows @
         [\<lparr>first_name = ''Leap'', last_name = ''Day'', birth_date = ''2000-02-29'',
           country = ''UK'', city = ''Leeds'', member_id = 4, created_at = ''now''\<rparr>],
       seq = 4\<rparr>,
      Inr \<lparr>first_name = ''Leap'', last_name = ''Day'', birth_date = ''2000-02-29'',
           country = ''UK'', city = ''Leeds'', new_id = 4\<rparr>)"
    by (simp add: post_members_def Member_validate_def validate_birth_date_def
        create_member_def insert_member_def same_key_def next_rowid_def ex_defs eval_defs)
  have l: "list_loop ex_today
      (ex_rows @
         [\<lparr>first_name = ''Leap'', last_name = ''Day'', birth_date = ''2000-02-29'',
           country = ''UK'', city = ''Leeds'', member_id = 4, created_at = ''now''\<rparr>]) []
      = Inl DatetimeValueError"
    by (simp add: ex_defs eval_defs with_days_def)
  show ?thesis
    unfolding p using l by (simp add: list_members_def)
qed

section \<open>Creating members\<close>

lemma fold_max_ge: "(a::int) \<le> fold max xs a"
  by (induction xs arbitrary: a) (auto intro: order_trans [OF max.cobounded2])

lemma fold_max_mem: "x \<in> set xs \<Longrightarrow> (x::int) \<le> fold max xs a"
proof (induction xs arbitrary: a)
  case Nil
  then show ?case by simp
next
  case (Cons y ys)
  show ?case
  proof (cases "x = y")
    case True
    then show ?thesis using fold_max_ge [of "max y a" ys] by simp
  next
    case False
    with Cons show ?thesis by simp
  qed
qed

lemma next_rowid_fresh: "r \<in> set (rows st) \<Longrightarrow> member_id r < next_rowid st"
  using fold_max_mem [of "member_id r" "map member_id (rows st)" "seq st"]
  by (simp add: next_rowid_def)

lemma validate_birth_date_Inr:
  assumes "strptime v = Inr birth"
    and "18 \<le> year today - year birth -
           (if month today < month birth \<or>
               (month today = month birth \<and> day today < day birth) then 1 else 0)"
  shows "validate_birth_date today v = Inr v"
  using assms by (simp add: validate_birth_date_def Let_def)

lemma post_members_valid:
  "validate_birth_date today (birth_date p) = Inr (birth_date p) \<Longrightarrow>
   post_members today now st p = create_member now st p"
  by (simp add: post_members_def Member_validate_def)

text \<open>
  Claim C4, as the code has it.  If no stored member has the key (first name, last name,
  country, city) of the first request, then for every second request with the same key,
  where the birth dates of both requests pass the validator and may differ, the first
  create succeeds and the second fails with the client error 400, whose description
  names the first and last name, the city and the country; the failed attempt leaves the
  store as the first create left it.
\<close>

theorem duplicate_create_conflict:
  assumes k: "same_key p1 p2"
    and v1: "validate_birth_date today1 (birth_date p1) = Inr (birth_date p1)"
    and v2: "validate_birth_date today2 (birth_date p2) = Inr (birth_date p2)"
    and f: "\<not> (\<exists>r \<in> set (rows st). same_key r p1)"
  shows "\<exists>st' r.
     post_members today1 now1 st p1 = (st', Inr r) \<and>
     post_members today2 now2 st' p2 =
       (st', Inl (HTTPException 400
          (''Member with name '' @ [CHR 0x27] @ first_name p2 @ '' '' @ last_name p2 @
           [CHR 0x27] @ '' in '' @ city p2 @ '', '' @ country p2 @ '' already exists'')))"
proof -
  let ?row = "\<lparr>first_name = first_name p1, last_name = last_name p1,
                birth_date = birth_date p1, country = country p1, city = city p1,
                member_id = next_rowid st, created_at = now1\<rparr>"
  let ?st = "st\<lparr>rows := rows st @ [?row], seq := next_rowid st\<rparr>"
  have i: "insert_member st p1 now1 = Some (?st, next_rowid st)"
    using f by (simp add: insert_member_def Let_def)
  have "same_key ?row p2" using k by (simp add: same_key_def)
  then have d: "insert_member ?st p2 now2 = None"
    by (simp add: insert_member_def)
  show ?thesis
    using i d by (simp add: post_members_valid [OF v1] post_members_valid [OF v2]
        create_member_def)
qed

theorem duplicate_create_conflict_witness:
  "same_key ex_request (ex_request\<lparr>birth_date := ''1970-07-07''\<rparr>) \<and>
   validate_birth_date ex_today (birth_date ex_request) = Inr (birth_date ex_request) \<and>
   validate_birth_date ex_today ''1970-07-07'' = Inr ''1970-07-07'' \<and>
   list_all (\<lambda>r. \<not> same_key r ex_request) (rows ex_store) \<and>
   (\<exists>st' r.
     post_members ex_today ''n1'' ex_store ex_request = (st', Inr r) \<and>
     post_members ex_today ''n2'' st' (ex_request\<lparr>birth_date := ''1970-07-07''\<rparr>) =
       (st', Inl (HTTPException 400
                    ''Member with name 'Test User' in Boston, USA already exists'')))"
proof -
  have k: "same_key ex_request (ex_request\<lparr>birth_date := ''1970-07-07''\<rparr>)"
    by (simp add: same_key_def)
  have v1: "validate_birth_date ex_today (birth_date ex_request) = Inr (birth_date ex_request)"
    by (simp add: validate_birth_date_def ex_defs eval_defs)
  have v2: "validate_birth_date ex_today ''1970-07-07'' = Inr ''1970-07-07''"
    by (simp add: validate_birth_date_def ex_defs eval_defs)
  have v2': "validate_birth_date ex_today
       (birth_date (ex_request\<lparr>birth_date := ''1970-07-07''\<rparr>))
     = Inr (birth_date (ex_request\<lparr>birth_date := ''1970-07-07''\<rparr>))"
    using v2 by simp
  have f: "\<not> (\<exists>r \<in> set (rows ex_store). same_key r ex_request)"
    by (simp add: ex_defs same_key_def)
  from duplicate_create_conflict [OF k v1 v2' f, of "''n1''" "''n2''"] k v1 v2 f
  show ?thesis by (simp add: list_all_iff ex_request_def)
qed

text \<open>
  On a store that already holds the key, the first create of a pair fails with the client
  error 400.  On a store without the key, a first request whose birth date the validator
  refuses fails with 422 and the second request of the same key then succeeds; and a
  second request whose birth date the validator refuses fails with 422, not 400.
\<close>

theorem create_pair_counterexample:
  "same_key ex_duplicate ex_duplicate \<and>
   post_members ex_today ''n1'' ex_store ex_duplicate =
     (ex_store, Inl (HTTPException 400
                      ''Member with name 'John Smith' in New York, USA already exists'')) \<and>
   same_key ex_underage ex_request \<and>
   list_all (\<lambda>r. \<not> same_key r ex_underage) (rows ex_store) \<and>
   post_members ex_today ''n1'' ex_store ex_underage =
     (ex_store, Inl (JSONResponse 422
        ''body -> birth_date: Value error, Member must be at least 18 years old. Current age would be 6'')) \<and>
   snd (post_members ex_today ''n2'' ex_store ex_request) =
     Inr \<lparr>first_name = ''Test'', last_name = ''User'', birth_date = ''1990-01-01'',
          country = ''USA'', city = ''Boston'', new_id = 4\<rparr> \<and>
   snd (post_members ex_today ''n2''
          (fst (post_members ex_today ''n1'' ex_store ex_request)) ex_underage) =
     Inl (JSONResponse 422
        ''body -> birth_date: Value error, Member must be at least 18 years old. Current age would be 6'')"
  by (simp add: post_members_def Member_validate_def validate_birth_date_def create_member_def
      insert_member_def same_key_def next_rowid_def validation_exception_handler_def
      ex_defs eval_defs text_defs)

text \<open>
  Claim C6, as the code has it.  For every create request whose birth date text \<open>d\<close>
  parses to a date of age at least 18 on \<open>today\<close>, and whose key (first name, last name,
  country, city) no stored member has, create succeeds: it returns the newly assigned id,
  larger than every stored id, together with the five fields of the request unchanged
  (the birth date is \<open>d\<close> verbatim) and nothing else, and the store gains exactly one
  record, which holds that id, those fields and the time of creation.  The names may be
  any text.
\<close>

theorem create_valid_member:
  assumes p: "strptime (birth_date payload) = Inr birth"
    and a: "18 \<le> year today - year birth -
           (if month today < month birth \<or>
               (month today = month birth \<and> day today < day birth) then 1 else 0)"
    and f: "\<not> (\<exists>r \<in> set (rows st). same_key r payload)"
  shows "\<exists>st' r.
     post_members today now st payload = (st', Inr r) \<and>
     r = \<lparr>first_name = first_name payload, last_name = last_name payload,
          birth_date = birth_date payload, country = country payload, city = city payload,
          new_id = next_rowid st\<rparr> \<and>
     new_id r = next_rowid st \<and>
     list_all (\<lambda>old. member_id old < new_id r) (rows st) \<and>
     birth_date r = birth_date payload \<and>
     first_name r = first_name payload \<and> last_name r = last_name payload \<and>
     country r = country payload \<and> city r = city payload \<and>
     rows st' = rows st @
       [\<lparr>first_name = first_name payload, last_name = last_name payload,
         birth_date = birth_date payload, country = country payload, city = city payload,
         member_id = new_id r, created_at = now\<rparr>]"
proof -
  have v: "Member_validate today payload = Inr payload"
    using validate_birth_date_Inr [OF p a] by (simp add: Member_validate_def)
  have i: "insert_member st payload now =
      Some (st\<lparr>rows := rows st @
              [\<lparr>first_name = first_name payload, last_name = last_name payload,
                birth_date = birth_date payload, country = country payload,
                city = city payload, member_id = next_rowid st, created_at = now\<rparr>],
             seq := next_rowid st\<rparr>, next_rowid st)"
    using f by (simp add: insert_member_def Let_def)
  have n: "list_all (\<lambda>old. member_id old < next_rowid st) (rows st)"
    using next_rowid_fresh [of _ st] by (simp add: list_all_iff)
  show ?thesis
    using v i n by (simp add: post_members_def create_member_def)
qed

theorem create_valid_member_witness:
  "strptime (birth_date ex_request) = Inr \<lparr>year = 1990, month = 1, day = 1\<rparr> \<and>
   list_all (\<lambda>r. \<not> same_key r ex_request) (rows ex_store) \<and>
   (\<exists>st' r.
     post_members ex_today ''now'' ex_store ex_request = (st', Inr r) \<and>
     r = \<lparr>first_name = ''Test'', last_name = ''User'', birth_date = ''1990-01-01'',
          country = ''USA'', city = ''Boston'', new_id = 4\<rparr> \<and>
     length (rows st') = 4 \<and> created_at (last (rows st')) = ''now'')"
proof -
  have p: "strptime (birth_date ex_request) = Inr \<lparr>year = 1990, month = 1, day = 1\<rparr>"
    by (simp add: ex_defs eval_defs)
  have f: "\<not> (\<exists>r \<in> set (rows ex_store). same_key r ex_request)"
    by (simp add: ex_defs same_key_def)
  have n: "next_rowid ex_store = 4" by (simp add: next_rowid_def ex_defs)
  have l: "length (rows ex_store) = 3" by (simp add: ex_defs)
  from create_valid_member [OF p _ f, of ex_today "''now''"]
  obtain st' r where "post_members ex_today ''now'' ex_store ex_request = (st', Inr r)"
    and "r = \<lparr>first_name = first_name ex_request, last_name = last_name ex_request,
          birth_date = birth_date ex_request, country = country ex_request,
          city = city ex_request, new_id = next_rowid ex_store\<rparr>"
    and "length (rows st') = length (rows ex_store) + 1"
    and "created_at (last (rows st')) = ''now''"
    by (auto simp: ex_today_def)
  with p f n l show ?thesis by (auto simp: list_all_iff ex_request_def)
qed

text \<open>
  A request with non-empty names and a valid adult birth date that repeats a stored key
  is refused with the client error 400.  A request that succeeds gets the same reply
  whatever the time of creation, while the created records differ in \<^verbatim>\<open>created_at\<close>:
  the reply is not the full created record.
\<close>

theorem create_reply_counterexample:
  "first_name ex_duplicate \<noteq> [] \<and> last_name ex_duplicate \<noteq> [] \<and>
   validate_birth_date ex_today (birth_date ex_duplicate) = Inr (birth_date ex_duplicate) \<and>
   post_members ex_today ''now'' ex_store ex_duplicate =
     (ex_store, Inl (HTTPException 400
                      ''Member with name 'John Smith' in New York, USA already exists'')) \<and>
   first_name ex_request \<noteq> [] \<and> last_name ex_request \<noteq> [] \<and>
   validate_birth_date ex_today (birth_date ex_request) = Inr (birth_date ex_request) \<and>
   snd (post_members ex_today ''monday'' ex_store ex_request) =
     snd (post_members ex_today ''friday'' ex_store ex_request) \<and>
   created_at (last (rows (fst (post_members ex_today ''monday'' ex_store ex_request))))
     = ''monday'' \<and>
   created_at (last (rows (fst (post_members ex_today ''friday'' ex_store ex_request))))
     = ''friday''"
  by (simp add: post_members_def Member_validate_def validate_birth_date_def create_member_def
      insert_member_def same_key_def next_rowid_def ex_defs eval_defs)

section \<open>Messages and e-mails\<close>

lemma generate_ai_message_not_JSONResponse:
  "generate_ai_message cfg ai member tone \<noteq> Inl (JSONResponse c d)"
  by (simp add: generate_ai_message_def Let_def split: sum.splits)

lemma generate_birthday_message_not_tone_error:
  "generate_birthday_message cfg ai st mid tone \<noteq> Inl tone_error"
  by (simp add: generate_birthday_message_def select_by_id_def tone_error_def
      validation_exception_handler_def generate_ai_message_not_JSONResponse
      split: option.splits sum.splits)

lemma send_birthday_email_not_tone_error:
  "fst (send_birthday_email cfg ai st mid tone dry) \<noteq> Inl tone_error"
  using generate_ai_message_not_JSONResponse [of cfg ai _ tone 422]
  by (auto simp: send_birthday_email_def select_by_id_def tone_error_def
      validation_exception_handler_def Let_def split: option.splits sum.splits if_splits)

text \<open>
  Claim C7.  For every member id, existing or not, and every tone text other than
  \<open>friendly\<close> and \<open>formal\<close>, the birthday-message route and the send-email route both
  reply with the same client error of status 422, which names the tone parameter; the
  reply is fixed, so it depends on neither the store, the configuration nor the
  text-generation collaborator, and send-email prints nothing: the function bodies, and
  with them the message generation, are never entered.  For the two recognised tones each
  route returns what its function body returns, which is never that error.
\<close>

theorem tone_validation:
  "(tone \<noteq> ''friendly'' \<and> tone \<noteq> ''formal'' \<longrightarrow>
      post_birthday_message cfg ai st mid (Some tone) = Inl tone_error \<and>
      post_send_email cfg ai st mid (Some tone) dry_q = (Inl tone_error, [])) \<and>
   (tone = ''friendly'' \<or> tone = ''formal'' \<longrightarrow>
      post_birthday_message cfg ai st mid (Some tone)
        = generate_birthday_message cfg ai st mid tone \<and>
      post_birthday_message cfg ai st mid (Some tone) \<noteq> Inl tone_error \<and>
      post_send_email cfg ai st mid (Some tone) dry_q
        = send_birthday_email cfg ai st mid tone (case dry_q of None \<Rightarrow> True | Some b \<Rightarrow> b) \<and>
      fst (post_send_email cfg ai st mid (Some tone) dry_q) \<noteq> Inl tone_error) \<and>
   tone_error =
     JSONResponse 422
       (''query -> tone: String should match pattern '' @ [CHR 0x27] @ ''^(friendly|formal)$'' @
        [CHR 0x27])"
proof (intro conjI impI)
  assume "tone \<noteq> ''friendly'' \<and> tone \<noteq> ''formal''"
  then have n: "\<not> tone_pattern tone" by (simp add: tone_pattern_def)
  show "post_birthday_message cfg ai st mid (Some tone) = Inl tone_error"
    using n by (simp add: post_birthday_message_def)
  show "post_send_email cfg ai st mid (Some tone) dry_q = (Inl tone_error, [])"
    using n by (simp add: post_send_email_def)
next
  assume "tone = ''friendly'' \<or> tone = ''formal''"
  then have y: "tone_pattern tone" by (simp add: tone_pattern_def)
  show b: "post_birthday_message cfg ai st mid (Some tone)
        = generate_birthday_message cfg ai st mid tone"
    using y by (simp add: post_birthday_message_def)
  show "post_birthday_message cfg ai st mid (Some tone) \<noteq> Inl tone_error"
    unfolding b by (rule generate_birthday_message_not_tone_error)
  show s: "post_send_email cfg ai st mid (Some tone) dry_q
        = send_birthday_email cfg ai st mid tone (case dry_q of None \<Rightarrow> True | Some b \<Rightarrow> b)"
    using y by (simp add: post_send_email_def)
  show "fst (post_send_email cfg ai st mid (Some tone) dry_q) \<noteq> Inl tone_error"
    unfolding s by (rule send_birthday_email_not_tone_error)
next
  show "tone_error =
     JSONResponse 422
       (''query -> tone: String should match pattern '' @ [CHR 0x27] @ ''^(friendly|formal)$'' @
        [CHR 0x27])"
    by (simp add: tone_error_def validation_exception_handler_def)
qed

theorem tone_validation_witness:
  "post_birthday_message ex_config ex_ai ex_store 1 (Some ''invalid'')
     = Inl (JSONResponse 422
         (''query -> tone: String should match pattern '^(friendly|formal)$'' @ [CHR 0x27])) \<and>
   post_send_email ex_config ex_ai ex_store 99999 (Some ''Formal'') (Some False)
     = (Inl (JSONResponse 422
         (''query -> tone: String should match pattern '^(friendly|formal)$'' @ [CHR 0x27])), []) \<and>
   post_birthday_message ex_config ex_ai ex_store 1 (Some ''formal'')
     = generate_birthday_message ex_config ex_ai ex_store 1 ''formal'' \<and>
   post_send_email ex_config ex_ai ex_store 1 (Some ''friendly'') None
     = send_birthday_email ex_config ex_ai ex_store 1 ''friendly'' True"
proof -
  have a: "''invalid'' \<noteq> ''friendly'' \<and> ''invalid'' \<noteq> ''formal''" by simp
  have b: "''Formal'' \<noteq> ''friendly'' \<and> ''Formal'' \<noteq> ''formal''" by simp
  note t1 = tone_validation [of "''invalid''" ex_config ex_ai ex_store 1 None]
  note t2 = tone_validation [of "''Formal''" ex_config ex_ai ex_store 99999 "Some False"]
  note t3 = tone_validation [of "''formal''" ex_config ex_ai ex_store 1 None]
  note t4 = tone_validation [of "''friendly''" ex_config ex_ai ex_store 1 None]
  have c1: "post_birthday_message ex_config ex_ai ex_store 1 (Some ''invalid'') = Inl tone_error"
    using t1 a by blast
  have c2: "post_send_email ex_config ex_ai ex_store 99999 (Some ''Formal'') (Some False)
      = (Inl tone_error, [])"
    using t2 b by blast
  have c3: "post_birthday_message ex_config ex_ai ex_store 1 (Some ''formal'')
     = generate_birthday_message ex_config ex_ai ex_store 1 ''formal''"
    using t3 by blast
  have c4: "post_send_email ex_config ex_ai ex_store 1 (Some ''friendly'') None
     = send_birthday_email ex_config ex_ai ex_store 1 ''friendly'' True"
    using t4 by simp
  have e: "tone_error = JSONResponse 422
         (''query -> tone: String should match pattern '^(friendly|formal)$'' @ [CHR 0x27])"
    using t1 by simp
  from c1 c2 c3 c4 show ?thesis unfolding e by blast
qed

lemma mock_generate_total:
  "MOCK_AI cfg \<or> OPENAI_API_KEY cfg = [] \<Longrightarrow> \<exists>bm. generate_ai_message cfg ai member tone = Inr bm"
  by (simp add: generate_ai_message_def Let_def)

text \<open>
  Claim C8, as the code has it.  For every existing member and recognised tone for which
  the message generation returns a message, as it always does in the template strategy,
  send-email builds the envelope whose recipient is the lower-cased first name, a dot,
  the lower-cased last name and \<open>@datavid.com\<close>, whose body is that message and whose
  flag is the dry-run flag (true when absent).  With the flag true it prints nothing and
  returns the status \<open>dry_run\<close> with the envelope; with the flag false it prints the
  three lines of the simulated dispatch and returns the status \<open>sent\<close>.  The two
  statuses differ, and printing is the only effect in either case.
\<close>

theorem send_email_spec:
  assumes r: "select_by_id st mid = Inr (Some row)"
    and t: "tone = ''friendly'' \<or> tone = ''formal''"
  shows
    "(MOCK_AI cfg \<or> OPENAI_API_KEY cfg = [] \<longrightarrow>
        (\<exists>bm. generate_ai_message cfg ai row tone = Inr bm)) \<and>
     (\<forall>bm. generate_ai_message cfg ai row tone = Inr bm \<longrightarrow>
        (\<exists>content.
           content =
             \<lparr>to = str_lower (first_name row) @ ''.'' @ str_lower (last_name row) @
                    ''@datavid.com'',
              subject = ''Happy Birthday, '' @ first_name row @ ''!'',
              body = message bm,
              dry_run = (case dry_q of None \<Rightarrow> True | Some b \<Rightarrow> b)\<rparr> \<and>
           post_send_email cfg ai st mid (Some tone) dry_q =
             (if (case dry_q of None \<Rightarrow> True | Some b \<Rightarrow> b)
              then (Inr \<lparr>status = ''dry_run'', email = content,
                         message' = ''Email NOT sent (dry-run mode). Email content logged above.''\<rparr>,
                    [])
              else (Inr \<lparr>status = ''sent'', email = content,
                         message' = ''Email sent successfully (simulated)''\<rparr>,
                    [''[EMAIL] To: '' @ to content,
                     ''[EMAIL] Subject: '' @ subject content,
                     ''[EMAIL] Body: '' @ body content])))) \<and>
     ''dry_run'' \<noteq> ''sent''"
proof (intro conjI impI allI)
  assume "MOCK_AI cfg \<or> OPENAI_API_KEY cfg = []"
  then show "\<exists>bm. generate_ai_message cfg ai row tone = Inr bm"
    by (rule mock_generate_total)
next
  fix bm
  assume g: "generate_ai_message cfg ai row tone = Inr bm"
  have y: "tone_pattern tone" using t by (simp add: tone_pattern_def)
  show "\<exists>content.
           content =
             \<lparr>to = str_lower (first_name row) @ ''.'' @ str_lower (last_name row) @
                    ''@datavid.com'',
              subject = ''Happy Birthday, '' @ first_name row @ ''!'',
              body = message bm,
              dry_run = (case dry_q of None \<Rightarrow> True | Some b \<Rightarrow> b)\<rparr> \<and>
           post_send_email cfg ai st mid (Some tone) dry_q =
             (if (case dry_q of None \<Rightarrow> True | Some b \<Rightarrow> b)
              then (Inr \<lparr>status = ''dry_run'', email = content,
                         message' = ''Email NOT sent (dry-run mode). Email content logged above.''\<rparr>,
                    [])
              else (Inr \<lparr>status = ''sent'', email = content,
                         message' = ''Email sent successfully (simulated)''\<rparr>,
                    [''[EMAIL] To: '' @ to content,
                     ''[EMAIL] Subject: '' @ subject content,
                     ''[EMAIL] Body: '' @ body content]))"
    using r g y by (simp add: post_send_email_def send_birthday_email_def Let_def)
next
  show "''dry_run'' \<noteq> ''sent''" by simp
qed

theorem send_email_spec_witness:
  "select_by_id ex_store 1 = Inr (Some (ex_rows ! 0)) \<and>
   post_send_email ex_config ex_ai ex_store 1 (Some ''friendly'') None =
     (Inr \<lparr>status = ''dry_run'',
           email = \<lparr>to = ''john.smith@datavid.com'', subject = ''Happy Birthday, John!'',
                    body = friendly_template (ex_rows ! 0), dry_run = True\<rparr>,
           message' = ''Email NOT sent (dry-run mode). Email content logged above.''\<rparr>, []) \<and>
   post_send_email ex_config ex_ai ex_store 1 (Some ''friendly'') (Some False) =
     (Inr \<lparr>status = ''sent'',
           email = \<lparr>to = ''john.smith@datavid.com'', subject = ''Happy Birthday, John!'',
                    body = friendly_template (ex_rows ! 0), dry_run = False\<rparr>,
           message' = ''Email sent successfully (simulated)''\<rparr>,
      [''[EMAIL] To: john.smith@datavid.com'',
       ''[EMAIL] Subject: Happy Birthday, John!'',
       ''[EMAIL] Body: '' @ friendly_template (ex_rows ! 0)])"
proof -
  have r: "select_by_id ex_store 1 = Inr (Some (ex_rows ! 0))"
    by (simp add: select_by_id_def ex_defs)
  have t: "''friendly'' = ''friendly'' \<or> ''friendly'' = ''formal''" by simp
  have g: "generate_ai_message ex_config ex_ai (ex_rows ! 0) ''friendly'' =
     Inr \<lparr>message = friendly_template (ex_rows ! 0),
          explanation =
            \<lparr>model = ''mock-generator-v1'', gen_method = ''template_based_generation'',
             parameters = [(''tone'', Str ''friendly''), (''language'', Str ''en'')],
             rationale = ''Generated using a rule-based template system with friendly tone. Personalized with member's first name and considering cultural context from USA.''\<rparr>\<rparr>"
    by (simp add: generate_ai_message_def Let_def dict_get_def COUNTRY_LANGUAGES_def ex_defs)
  have n: "str_lower (first_name (ex_rows ! 0)) = ''john''"
    "str_lower (last_name (ex_rows ! 0)) = ''smith''" "first_name (ex_rows ! 0) = ''John''"
    by (simp_all add: ex_defs text_defs)
  note th = send_email_spec [OF r t, of ex_config ex_ai, THEN conjunct2, THEN conjunct1,
      rule_format, OF g]
  from th [of None] th [of "Some False"] r n show ?thesis by simp
qed

text \<open>
  With the generative strategy configured and a collaborator that fails, the operation
  fails with the server error 500 for an existing member and a recognised tone, whatever
  the dry-run flag, and builds no envelope.
\<close>

theorem send_email_generation_failure_counterexample:
  "select_by_id ex_store 1 = Inr (Some (ex_rows ! 0)) \<and>
   post_send_email ex_live_config ex_ai ex_store 1 (Some ''friendly'') None =
     (Inl (HTTPException 500 ''AI generation failed: no collaborator''), []) \<and>
   post_send_email ex_live_config ex_ai ex_store 1 (Some ''friendly'') (Some False) =
     (Inl (HTTPException 500 ''AI generation failed: no collaborator''), [])"
  by (simp add: post_send_email_def send_birthday_email_def select_by_id_def tone_pattern_def
      generate_ai_message_def Let_def ex_defs)

lemma str_lower_example: "str_lower ''John O'Neil'' = ''john o'neil''"
  by (simp add: text_defs)

lemma lower_char_accented: "lower_char (CHR 0xC9) = CHR 0xE9"
  by code_simp

lemma lower_char_unchanged: "lower_char (CHR 0xD7) = CHR 0xD7 \<and> lower_char (CHR 0xDF) = CHR 0xDF"
  by code_simp

lemma strip_examples:
  "strip ([CHR 0xA0, CHR 0x0A] @ ''Happy  birthday'' @ [CHR 0x85, CHR '' '']) = ''Happy  birthday''"
  by (simp add: strip_def is_space_def)

text \<open>
  Claim C10.  In the template strategy, for every member and every tone other than
  \<open>friendly\<close> and \<open>formal\<close>, \<open>generate_ai_message\<close> returns: its message is the one
  it returns for the tone \<open>friendly\<close>, the friendly template, and the parameters of its
  explanation record the tone text that was passed in, unchanged.
\<close>

theorem mock_generator_accepts_any_tone:
  assumes "MOCK_AI cfg \<or> OPENAI_API_KEY cfg = []"
    and "tone \<noteq> ''friendly''" and "tone \<noteq> ''formal''"
  shows "\<exists>bm bf.
     generate_ai_message cfg ai member tone = Inr bm \<and>
     generate_ai_message cfg ai member ''friendly'' = Inr bf \<and>
     message bm = message bf \<and>
     message bm = friendly_template member \<and>
     map_of (parameters (explanation bm)) ''tone'' = Some (Str tone)"
  using assms by (simp add: generate_ai_message_def Let_def dict_get_def)

theorem mock_generator_accepts_any_tone_witness:
  "MOCK_AI ex_config \<and>
   (\<exists>bm. generate_ai_message ex_config ex_ai ex_request ''invalid'' = Inr bm \<and>
      message bm =
        '' Happy Birthday, Test! Wishing you an amazing day filled with joy and laughter from all of us at Datavid!'' \<and>
      map_of (parameters (explanation bm)) ''tone'' = Some (Str ''invalid''))"
proof -
  have m: "MOCK_AI ex_config \<or> OPENAI_API_KEY ex_config = []" by (simp add: ex_defs)
  have f: "friendly_template ex_request =
      '' Happy Birthday, Test! Wishing you an amazing day filled with joy and laughter from all of us at Datavid!''"
    by (simp add: friendly_template_def ex_defs)
  from mock_generator_accepts_any_tone [OF m, of "''invalid''" ex_ai ex_request] f
  show ?thesis by (auto simp: ex_config_def)
qed

section \<open>The birth date validator\<close>

text \<open>
  What the validator does on every text: the format error when the text does not parse,
  otherwise the age rule, with the computed age at the end of the underage message.
\<close>

lemma validate_birth_date_cases:
  "validate_birth_date today v =
     (case strptime v of
        Inl e \<Rightarrow> Inl (ValueError ''Birth date must be in YYYY-MM-DD format'')
      | Inr birth \<Rightarrow>
          if year today - year birth -
               (if month today < month birth \<or>
                   (month today = month birth \<and> day today < day birth) then 1 else 0) < 18
          then Inl (ValueError
                 (''Member must be at least 18 years old. Current age would be '' @
                  str_int (year today - year birth -
                     (if month today < month birth \<or>
                         (month today = month birth \<and> day today < day birth) then 1 else 0))))
          else Inr v)"
  by (simp add: validate_birth_date_def Let_def split: sum.splits)

lemma validate_birth_date_underage_example:
  "validate_birth_date ex_today ''2016-11-06'' =
     Inl (ValueError ''Member must be at least 18 years old. Current age would be 9'')"
  by (simp add: validate_birth_date_def ex_defs eval_defs text_defs)

text \<open>
  Claim C2.  The validator's own message asks for the form \<^verbatim>\<open>YYYY-MM-DD\<close>, but the
  pattern \<^verbatim>\<open>%Y-%m-%d\<close> also matches a month or day of one digit and a day padded with a
  space: such texts are not of that form, and the validator accepts them and returns
  them verbatim.
\<close>

theorem validator_accepts_unpadded_date:
  "\<not> spec_YYYY_MM_DD ''1990-1-5'' \<and>
   strptime ''1990-1-5'' = Inr \<lparr>year = 1990, month = 1, day = 5\<rparr> \<and>
   validate_birth_date ex_today ''1990-1-5'' = Inr ''1990-1-5'' \<and>
   \<not> spec_YYYY_MM_DD ''1990-01- 5'' \<and>
   validate_birth_date ex_today ''1990-01- 5'' = Inr ''1990-01- 5''"
  by (simp add: spec_YYYY_MM_DD_def validate_birth_date_def ex_defs eval_defs)

end
